theory Spec2Isabelle
  imports Complex_Main "HOL-Library.Sublist" "HOL-Library.Multiset"
begin

section \<open>Python values, exceptions and string operations\<close>

text \<open>
  The tester is a Python program (\<^verbatim>\<open>cdn_iptv_tester.py\<close>). Its floats are idealised as
  reals, its strings are byte strings (\<open>string\<close>), its dictionaries are maps and every
  exception that the code can raise is a value of \<open>exn\<close>; a function that can raise
  returns \<open>exn + 'a\<close>, with \<open>Inl\<close> for the exception that leaves it.

  Every exception below is a subclass of Python's \<open>Exception\<close>, so a handler
  \<^verbatim>\<open>except Exception\<close> catches each of them, and \<^verbatim>\<open>except asyncio.TimeoutError\<close> catches
  \<open>TimeoutError\<close> only. Interrupts of the process (\<open>KeyboardInterrupt\<close>, a cancellation)
  are outside the model.
\<close>

datatype exn =
    TimeoutError | ClientError | OSError | ValueError | AttributeError
  | IndexError | KeyError | ZeroDivisionError | StatisticsError

text \<open>
  A value decoded from JSON, as far as the tester looks at it: \<open>None\<close>, a string, or any
  other object (a number, a boolean, a list, a dictionary), which carries what Python's
  \<open>str()\<close> prints for it. Only strings have the method \<open>lower\<close>.
\<close>

datatype pyval = PNone | PStr string | PObj string

fun py_str :: "pyval \<Rightarrow> string" where
  "py_str PNone = ''None''"
| "py_str (PStr s) = s"
| "py_str (PObj s) = s"

type_synonym pydict = "string \<rightharpoonup> pyval"

text \<open>\<^verbatim>\<open>d.get(key, default)\<close> and \<^verbatim>\<open>d[key]\<close>.\<close>

definition dict_get :: "('k \<rightharpoonup> 'v) \<Rightarrow> 'k \<Rightarrow> 'v \<Rightarrow> 'v" where
  "dict_get d k dflt = (case d k of None \<Rightarrow> dflt | Some v \<Rightarrow> v)"

definition dict_index :: "('k \<rightharpoonup> 'v) \<Rightarrow> 'k \<Rightarrow> exn + 'v" where
  "dict_index d k = (case d k of None \<Rightarrow> Inl KeyError | Some v \<Rightarrow> Inr v)"

text \<open>
  \<^verbatim>\<open>s.lower()\<close> on the ASCII letters; every other byte is kept. The capital letters are
  the codes 65 to 90, and adding 32 to one of them sets the bit of weight 32, which is
  clear in all of them.
\<close>

fun lower_char :: "char \<Rightarrow> char" where
  "lower_char (Char b0 b1 b2 b3 b4 b5 b6 b7) =
     (let n = (of_char (Char b0 b1 b2 b3 b4 b5 b6 b7) :: nat)
      in if 65 \<le> n \<and> n \<le> 90 then Char b0 b1 b2 b3 b4 True b6 b7
         else Char b0 b1 b2 b3 b4 b5 b6 b7)"

definition lower :: "string \<Rightarrow> string" where
  "lower s = map lower_char s"

text \<open>\<^verbatim>\<open>x in s\<close> for strings: \<open>x\<close> occurs in \<open>s\<close> as a contiguous substring.\<close>

fun substr_in :: "string \<Rightarrow> string \<Rightarrow> bool" where
  "substr_in x [] = (x = [])"
| "substr_in x (c # cs) = (prefix x (c # cs) \<or> substr_in x cs)"

section \<open>The tester object\<close>

record CDNTester =
  username :: string
  password :: string
  user_agent :: string

definition USER_AGENTS :: "string \<rightharpoonup> string" where
  "USER_AGENTS = [''tivimate'' \<mapsto> ''TiviMate/4.4.0 (Android 11)'',
                  ''vlc'' \<mapsto> ''VLC/3.0.18 LibVLC/3.0.18'']"

text \<open>
  \<^verbatim>\<open>__init__\<close>: the default \<^verbatim>\<open>USER_AGENTS['tivimate']\<close> is evaluated first (a missing key
  would raise), then the lower-cased argument is looked up with that default.
\<close>

definition CDNTester_init :: "string \<Rightarrow> string \<Rightarrow> string \<Rightarrow> exn + CDNTester" where
  "CDNTester_init usr pwd ua =
     (case dict_index USER_AGENTS ''tivimate'' of
        Inl e \<Rightarrow> Inl e
      | Inr dflt \<Rightarrow>
          Inr \<lparr>username = usr, password = pwd,
               user_agent = dict_get USER_AGENTS (lower ua) dflt\<rparr>)"

section \<open>Provider identification\<close>

text \<open>
  \<^verbatim>\<open>identify_hosting_provider(org, asn)\<close>: \<open>org\<close> is a string (the caller's \<open>lower\<close> on
  anything else raises before any branch is taken, see \<open>get_asn_info\<close>), \<open>asn\<close> is any
  value and goes through \<open>str()\<close>. The branches are the source's \<^verbatim>\<open>if/elif\<close> chain, in
  its order.
\<close>

definition any_in :: "string list \<Rightarrow> string \<Rightarrow> bool" where
  "any_in pats s = list_ex (\<lambda>x. substr_in x s) pats"

definition identify_hosting_provider :: "string \<Rightarrow> pyval \<Rightarrow> string" where
  "identify_hosting_provider org asn =
    (let org_lower = lower org; asn_str = lower (py_str asn) in
     if any_in [''cloudflare'', ''cf-'', ''cloud flare''] org_lower then ''Cloudflare''
     else if any_in [''amazon'', ''aws'', ''amazon.com'', ''ec2''] org_lower
       then ''Amazon Web Services (AWS)''
     else if any_in [''google'', ''gcp'', ''google cloud''] org_lower
       then ''Google Cloud Platform (GCP)''
     else if any_in [''microsoft'', ''azure'', ''msft''] org_lower then ''Microsoft Azure''
     else if any_in [''digitalocean'', ''digital ocean''] org_lower then ''DigitalOcean''
     else if any_in [''linode'', ''akamai''] org_lower then ''Linode/Akamai''
     else if any_in [''ovh'', ''ovhcloud''] org_lower then ''OVH''
     else if any_in [''hetzner''] org_lower then ''Hetzner''
     else if any_in [''vultr''] org_lower then ''Vultr''
     else if any_in [''alibaba'', ''aliyun''] org_lower then ''Alibaba Cloud''
     else if any_in [''oracle'', ''oraclecloud''] org_lower then ''Oracle Cloud''
     else if any_in [''ibm'', ''softlayer''] org_lower then ''IBM Cloud''
     else if any_in [''rackspace''] org_lower then ''Rackspace''
     else if any_in [''contabo''] org_lower then ''Contabo''
     else if any_in [''fastly''] org_lower then ''Fastly CDN''
     else if any_in [''cdn77''] org_lower then ''CDN77''
     else if any_in [''stackpath'', ''highwinds''] org_lower then ''StackPath''
     else if any_in [''bunny'', ''bunnycdn''] org_lower then ''BunnyCDN''
     else if asn_str \<in> set [''13335'', ''as13335''] then ''Cloudflare''
     else if asn_str \<in> set [''16509'', ''as16509'', ''14618'', ''as14618'']
       then ''Amazon Web Services (AWS)''
     else if asn_str \<in> set [''15169'', ''as15169''] then ''Google Cloud Platform (GCP)''
     else if asn_str \<in> set [''8075'', ''as8075''] then ''Microsoft Azure''
     else if any_in [''hosting'', ''host'', ''server'', ''datacenter'', ''data center''] org_lower
       then ''Hosting Provider ('' @ org @ '')''
     else if any_in [''telecom'', ''communications'', ''isp'', ''internet''] org_lower
       then ''ISP/Telecom ('' @ org @ '')''
     else if org \<noteq> [] then org else ''Unknown'')"

subsection \<open>The rule table of the specification\<close>









section \<open>The statistics module\<close>

text \<open>
  \<^verbatim>\<open>statistics.mean\<close> raises \<open>StatisticsError\<close> on an empty list, \<^verbatim>\<open>statistics.stdev\<close> (the
  sample standard deviation: the square root of the sum of squared deviations from the
  mean, divided by \<open>n - 1\<close>) on fewer than two values.
\<close>

definition statistics_mean :: "real list \<Rightarrow> exn + real" where
  "statistics_mean xs =
     (if xs = [] then Inl StatisticsError else Inr (sum_list xs / real (length xs)))"

definition statistics_stdev :: "real list \<Rightarrow> exn + real" where
  "statistics_stdev xs =
     (if length xs < 2 then Inl StatisticsError
      else let m = sum_list xs / real (length xs)
           in Inr (sqrt (sum_list (map (\<lambda>x. (x - m)\<^sup>2) xs) / real (length xs - 1))))"

section \<open>The network\<close>

text \<open>
  What the network, the resolver and the clocks answer is an input of the model. Every call
  the tester makes is appended to a log (the world), and the answer to a call may depend on
  its arguments and on the number of calls made before it, so that the same request can be
  answered differently each time.
\<close>

datatype call =
    CallGetaddrinfo string
  | CallIpapi string
  | CallHead string string
  | CallGet string string int
  | CallNow

type_synonym world = "call list"

text \<open>
  \<^verbatim>\<open>loop.getaddrinfo(domain, None)\<close> raises or returns a list of entries; the model keeps of
  each entry the host of its socket address, which is what \<^verbatim>\<open>ip[0][4][0]\<close> reads.
\<close>

datatype gai_outcome = GaiRaised exn | GaiResult "string list"

text \<open>
  The lookup at ipapi.co: the request raises, or a response arrives with a status and a
  body; decoding the body as JSON raises, gives a dictionary, or gives another value (which
  has no method \<open>get\<close>).
\<close>

datatype json_body = BodyRaised exn | BodyDict pydict | BodyOther

datatype ipapi_outcome = IpapiRaised exn | IpapiResp nat json_body

text \<open>
  A HEAD request raises, or a response arrives with a status; the real is the number of
  seconds between the two readings of \<^verbatim>\<open>time.perf_counter()\<close> around it.
\<close>

datatype head_outcome = HeadRaised exn | HeadResp nat real

text \<open>
  A streamed GET raises before any response, or a response arrives with a status and a
  body: the chunks in order, each with its length and with the seconds since \<open>start\<close> that
  the clock shows when the loop checks it after that chunk; how the stream ends after the
  last chunk; and the seconds since \<open>start\<close> when \<open>elapsed\<close> is read after the loop.
\<close>

datatype stream_end = StreamEof | StreamRaised exn

datatype get_outcome = GetRaised exn | GetResp nat "(nat \<times> real) list" stream_end real

record net =
  getaddrinfo :: "nat \<Rightarrow> string \<Rightarrow> gai_outcome"
  ipapi_get :: "nat \<Rightarrow> string \<Rightarrow> ipapi_outcome"
  http_head :: "nat \<Rightarrow> string \<Rightarrow> string \<Rightarrow> head_outcome"
  http_get :: "nat \<Rightarrow> string \<Rightarrow> string \<Rightarrow> int \<Rightarrow> get_outcome"
  now_isoformat :: "nat \<Rightarrow> string"

section \<open>Resolver and classifier\<close>

text \<open>
  \<^verbatim>\<open>resolve_dns\<close>: the body of the \<^verbatim>\<open>try\<close> indexes the first entry, which raises
  \<open>IndexError\<close> on an empty list; the handler \<^verbatim>\<open>except Exception\<close> prints and returns \<open>None\<close>.
\<close>

definition resolve_dns_try :: "gai_outcome \<Rightarrow> exn + string" where
  "resolve_dns_try out =
     (case out of
        GaiRaised e \<Rightarrow> Inl e
      | GaiResult ip \<Rightarrow> (case ip of [] \<Rightarrow> Inl IndexError | h # _ \<Rightarrow> Inr h))"

definition resolve_dns :: "net \<Rightarrow> world \<Rightarrow> string \<Rightarrow> (exn + string option) \<times> world" where
  "resolve_dns nt w domain =
     (let out = getaddrinfo nt (length w) domain;
          w' = w @ [CallGetaddrinfo domain]
      in (case resolve_dns_try out of
            Inl e \<Rightarrow> Inr None
          | Inr ip \<Rightarrow> Inr (Some ip), w'))"

text \<open>
  \<^verbatim>\<open>get_asn_info\<close>: with status 200 the body is decoded and four keys are read with
  defaults; the f-strings print the values with \<open>str()\<close>, and \<open>identify_hosting_provider\<close>
  calls \<open>lower\<close> on \<open>org\<close>, which raises \<open>AttributeError\<close> unless it is a string. Any other
  status leaves the \<^verbatim>\<open>try\<close> without a value, and so does the handler \<^verbatim>\<open>except Exception\<close>:
  both reach the final \<^verbatim>\<open>return None, None, None\<close>.
\<close>

type_synonym asn_info = "string option \<times> string option \<times> string option"

definition get_asn_info_try :: "ipapi_outcome \<Rightarrow> exn + asn_info option" where
  "get_asn_info_try out =
     (case out of
        IpapiRaised e \<Rightarrow> Inl e
      | IpapiResp status body \<Rightarrow>
          if status = 200 then
            (case body of
               BodyRaised e \<Rightarrow> Inl e
             | BodyOther \<Rightarrow> Inl AttributeError
             | BodyDict data \<Rightarrow>
                 (let asn_s = ''AS'' @ py_str (dict_get data ''asn'' (PStr ''Unknown''))
                              @ '' - '' @ py_str (dict_get data ''org'' (PStr ''Unknown''));
                      geo = py_str (dict_get data ''city'' (PStr ''Unknown''))
                              @ '', '' @ py_str (dict_get data ''country_name'' (PStr ''Unknown''))
                  in (case dict_get data ''org'' (PStr '''') of
                        PStr org \<Rightarrow>
                          Inr (Some (Some asn_s, Some geo,
                            Some (identify_hosting_provider org (dict_get data ''asn'' (PStr '''')))))
                      | PNone \<Rightarrow> Inl AttributeError
                      | PObj _ \<Rightarrow> Inl AttributeError)))
          else Inr None)"

definition get_asn_info :: "net \<Rightarrow> world \<Rightarrow> string \<Rightarrow> (exn + asn_info) \<times> world" where
  "get_asn_info nt w ip =
     (let url = ''https://ipapi.co/'' @ ip @ ''/json/'';
          out = ipapi_get nt (length w) url;
          w' = w @ [CallIpapi url]
      in (case get_asn_info_try out of
            Inr (Some info) \<Rightarrow> Inr info
          | Inr None \<Rightarrow> Inr (None, None, None)
          | Inl e \<Rightarrow> Inr (None, None, None), w'))"

section \<open>Latency probe\<close>

text \<open>
  \<^verbatim>\<open>measure_latency\<close>: \<open>num_pings\<close> HEAD requests in sequence. A request that raises is
  skipped (\<^verbatim>\<open>continue\<close>); a response adds its latency in milliseconds to the list when its
  status is one of 200, 302, 401, 403. The function returns the pair \<open>(None, None)\<close>, here
  \<open>None\<close>, when the list is empty, and otherwise the mean and the jitter.
\<close>

fun ping_loop :: "net \<Rightarrow> string \<Rightarrow> string \<Rightarrow> nat \<Rightarrow> world \<Rightarrow> real list \<Rightarrow> real list \<times> world" where
  "ping_loop nt ua url 0 w latencies = (latencies, w)"
| "ping_loop nt ua url (Suc n) w latencies =
     (let out = http_head nt (length w) url ua;
          w' = w @ [CallHead url ua]
      in case out of
           HeadRaised e \<Rightarrow> ping_loop nt ua url n w' latencies
         | HeadResp status dt \<Rightarrow>
             (let latency = dt * 1000
              in if status \<in> set [200, 302, 401, 403]
                 then ping_loop nt ua url n w' (latencies @ [latency])
                 else ping_loop nt ua url n w' latencies))"

definition latency_summary :: "real list \<Rightarrow> exn + (real \<times> real) option" where
  "latency_summary latencies =
     (if latencies = [] then Inr None
      else case statistics_mean latencies of
             Inl e \<Rightarrow> Inl e
           | Inr avg_latency \<Rightarrow>
               (case (if length latencies > 1 then statistics_stdev latencies else Inr 0) of
                  Inl e \<Rightarrow> Inl e
                | Inr jitter \<Rightarrow> Inr (Some (avg_latency, jitter))))"

definition measure_latency ::
  "net \<Rightarrow> CDNTester \<Rightarrow> world \<Rightarrow> string \<Rightarrow> nat \<Rightarrow> (exn + (real \<times> real) option) \<times> world" where
  "measure_latency nt self w url num_pings =
     (let (latencies, w') = ping_loop nt (user_agent self) url num_pings w []
      in (latency_summary latencies, w'))"

section \<open>Throughput meter\<close>

text \<open>
  The loop over the chunks of the body: each chunk adds its length to \<open>bytes_downloaded\<close>,
  then the loop breaks when more than \<open>duration\<close> seconds have passed since \<open>start\<close>. The
  result is the byte count when the loop is left and the exception that left it, if any.
\<close>

fun read_chunks :: "int \<Rightarrow> (nat \<times> real) list \<Rightarrow> stream_end \<Rightarrow> nat \<Rightarrow> nat \<times> exn option" where
  "read_chunks duration [] StreamEof bytes_downloaded = (bytes_downloaded, None)"
| "read_chunks duration [] (StreamRaised e) bytes_downloaded = (bytes_downloaded, Some e)"
| "read_chunks duration ((n, t) # chunks) fin bytes_downloaded =
     (if t > real_of_int duration then (bytes_downloaded + n, None)
      else read_chunks duration chunks fin (bytes_downloaded + n))"

text \<open>
  The \<^verbatim>\<open>try\<close> block of \<^verbatim>\<open>measure_throughput\<close>: the byte count when the block is left, and
  the value returned inside it or the exception that leaves it. A status other than 200
  returns \<open>None\<close> at once. The division raises \<open>ZeroDivisionError\<close> when no time has passed.
  Closing the response after the loop is taken not to raise.
\<close>

definition measure_throughput_try :: "int \<Rightarrow> get_outcome \<Rightarrow> nat \<times> (exn + real option)" where
  "measure_throughput_try duration out =
     (case out of
        GetRaised e \<Rightarrow> (0, Inl e)
      | GetResp status chunks fin elapsed \<Rightarrow>
          if status \<noteq> 200 then (0, Inr None)
          else (case read_chunks duration chunks fin 0 of
                  (bytes_downloaded, Some e) \<Rightarrow> (bytes_downloaded, Inl e)
                | (bytes_downloaded, None) \<Rightarrow>
                    if elapsed * 1000000 = 0 then (bytes_downloaded, Inl ZeroDivisionError)
                    else (bytes_downloaded,
                          Inr (Some (real (bytes_downloaded * 8) / (elapsed * 1000000))))))"

text \<open>
  The handlers. \<^verbatim>\<open>except asyncio.TimeoutError\<close> returns the estimate over the configured
  duration when bytes were received (its division raises out of the handler when
  \<open>duration * 1000000\<close> is zero) and otherwise falls through to the final \<^verbatim>\<open>return None\<close>;
  \<^verbatim>\<open>except Exception\<close> prints and falls through to it as well.
\<close>

definition measure_throughput_except :: "int \<Rightarrow> nat \<Rightarrow> exn \<Rightarrow> exn + real option" where
  "measure_throughput_except duration bytes_downloaded e =
     (if e = TimeoutError then
        (if bytes_downloaded > 0 then
           (if duration * 1000000 = 0 then Inl ZeroDivisionError
            else Inr (Some (real (bytes_downloaded * 8) / real_of_int (duration * 1000000))))
         else Inr None)
      else Inr None)"

definition throughput_result :: "int \<Rightarrow> get_outcome \<Rightarrow> exn + real option" where
  "throughput_result duration out =
     (case measure_throughput_try duration out of
        (bytes_downloaded, Inl e) \<Rightarrow> measure_throughput_except duration bytes_downloaded e
      | (bytes_downloaded, Inr v) \<Rightarrow> Inr v)"

definition measure_throughput ::
  "net \<Rightarrow> CDNTester \<Rightarrow> world \<Rightarrow> string \<Rightarrow> int \<Rightarrow> (exn + real option) \<times> world" where
  "measure_throughput nt self w url duration =
     (let out = http_get nt (length w) url (user_agent self) (duration + 5);
          w' = w @ [CallGet url (user_agent self) (duration + 5)]
      in (throughput_result duration out, w'))"

subsection \<open>Notions used to state the probe properties\<close>

text \<open>
  The answers that the \<open>n\<close> HEAD requests of one probe receive, in order; the samples
  that the specification counts (a response whose status is in the accepted set); the mean
  and the sample standard deviation as the specification words them.
\<close>

definition probe_outcomes :: "net \<Rightarrow> string \<Rightarrow> string \<Rightarrow> world \<Rightarrow> nat \<Rightarrow> head_outcome list" where
  "probe_outcomes nt ua url w n = map (\<lambda>i. http_head nt (length w + i) url ua) [0..<n]"

fun accepted_sample :: "head_outcome \<Rightarrow> real option" where
  "accepted_sample (HeadRaised e) = None"
| "accepted_sample (HeadResp status dt) =
     (if status = 200 \<or> status = 302 \<or> status = 401 \<or> status = 403 then Some (dt * 1000)
      else None)"

definition accepted_samples :: "head_outcome list \<Rightarrow> real list" where
  "accepted_samples outs = List.map_filter accepted_sample outs"

definition mean_spec :: "real list \<Rightarrow> real" where
  "mean_spec xs = sum_list xs / real (length xs)"

definition sample_stdev_spec :: "real list \<Rightarrow> real" where
  "sample_stdev_spec xs =
     sqrt ((\<Sum>x\<leftarrow>xs. (x - mean_spec xs)\<^sup>2) / (real (length xs) - 1))"

text \<open>
  \<^verbatim>\<open>time.perf_counter()\<close> is monotonic: the time read after a download is not before
  \<open>start\<close>.
\<close>

fun clock_monotonic :: "get_outcome \<Rightarrow> bool" where
  "clock_monotonic (GetRaised e) = True"
| "clock_monotonic (GetResp status chunks fin elapsed) = (0 \<le> elapsed)"

text \<open>The loop over the chunks is not left by \<^verbatim>\<open>break\<close>: no check finds the duration exceeded.\<close>

definition within_duration :: "int \<Rightarrow> (nat \<times> real) list \<Rightarrow> bool" where
  "within_duration duration chunks = list_all (\<lambda>(n, t). t \<le> real_of_int duration) chunks"

section \<open>Result records\<close>

record TestResult =
  dns_entry :: string
  channel_id :: string
  channel_name :: pyval
  timestamp :: string
  avg_latency_ms :: real
  jitter_ms :: real
  throughput_mbps :: real
  ip_address :: string
  asn :: "string option"
  geolocation :: "string option"
  hosting_provider :: "string option"
  success_rate :: real
  error_message :: "string option"

text \<open>
  \<^verbatim>\<open>round(x, 2)\<close>: the nearest multiple of 0.01, a tie going to the even one (on reals; the
  source rounds the binary float).
\<close>

definition round_half_even :: "real \<Rightarrow> int" where
  "round_half_even x =
     (let f = \<lfloor>x\<rfloor>; d = x - of_int f
      in if d < 1 / 2 then f else if 1 / 2 < d then f + 1 else if even f then f else f + 1)"

definition py_round2 :: "real \<Rightarrow> real" where
  "py_round2 x = of_int (round_half_even (x * 100)) / 100"

section \<open>Testing one endpoint\<close>

text \<open>
  \<^verbatim>\<open>s.replace(old, new)\<close> replaces the occurrences of \<open>old\<close> from left to right, and
  \<^verbatim>\<open>s.split('/')[0]\<close> is the part of \<open>s\<close> before its first slash.
\<close>

function py_replace :: "string \<Rightarrow> string \<Rightarrow> string \<Rightarrow> string" where
  "py_replace old new [] = (if old = [] then new else [])"
| "py_replace old new (c # cs) =
     (if old = [] then new @ c # py_replace old new cs
      else if prefix old (c # cs) then new @ py_replace old new (drop (length old) (c # cs))
      else c # py_replace old new cs)"
  by pat_completeness auto
termination
  by (relation "measure (\<lambda>(old, new, s). length s)") auto

definition split_first :: "char \<Rightarrow> string \<Rightarrow> string" where
  "split_first sep s = takeWhile (\<lambda>c. c \<noteq> sep) s"

definition domain_of :: "string \<Rightarrow> string" where
  "domain_of entry =
     split_first (CHR ''/'') (py_replace ''https://'' '''' (py_replace ''http://'' '''' entry))"

text \<open>
  The branch taken when the address does not resolve: one record per channel, each with
  its own reading of the clock, and no other call.
\<close>

fun unresolved_loop ::
  "net \<Rightarrow> string \<Rightarrow> pydict list \<Rightarrow> world \<Rightarrow> TestResult list \<Rightarrow> TestResult list \<times> world" where
  "unresolved_loop nt entry [] w results = (results, w)"
| "unresolved_loop nt entry (channel # channels) w results =
     (let ts = now_isoformat nt (length w);
          w' = w @ [CallNow];
          r = \<lparr>dns_entry = entry,
               channel_id = py_str (dict_get channel ''stream_id'' (PStr ''unknown'')),
               channel_name = dict_get channel ''name'' (PStr ''Unknown''),
               timestamp = ts,
               avg_latency_ms = 0,
               jitter_ms = 0,
               throughput_mbps = 0,
               ip_address = ''N/A'',
               asn = None,
               geolocation = None,
               hosting_provider = None,
               success_rate = 0,
               error_message = Some ''DNS resolution failed''\<rparr>
      in unresolved_loop nt entry channels w' (results @ [r]))"

text \<open>The URL of a channel's stream at an endpoint.\<close>

definition stream_url :: "CDNTester \<Rightarrow> string \<Rightarrow> pydict \<Rightarrow> string" where
  "stream_url self entry channel =
     entry @ ''/live/'' @ username self @ ''/'' @ password self @ ''/''
       @ py_str (dict_get channel ''stream_id'' PNone) @ ''.ts''"

text \<open>
  One pass of the loop over the channels: the latency probe with its default of 5
  attempts; without a latency, a failure record and \<^verbatim>\<open>continue\<close>; with one, the throughput
  measurement with its default duration of 5 seconds and a record whose throughput is 0
  when the measurement gave \<open>None\<close> or 0.
\<close>

definition test_channel ::
  "net \<Rightarrow> CDNTester \<Rightarrow> string \<Rightarrow> string \<Rightarrow> asn_info \<Rightarrow> pydict \<Rightarrow> world
    \<Rightarrow> (exn + TestResult) \<times> world" where
  "test_channel nt self entry ip info channel w =
     (let stream_id = dict_get channel ''stream_id'' PNone;
          name = dict_get channel ''name'' (PStr ''Unknown'');
          url = stream_url self entry channel;
          (lat, w1) = measure_latency nt self w url 5
      in case lat of
           Inl e \<Rightarrow> (Inl e, w1)
         | Inr None \<Rightarrow>
             (let ts = now_isoformat nt (length w1);
                  w2 = w1 @ [CallNow]
              in (Inr \<lparr>dns_entry = entry,
                       channel_id = py_str stream_id,
                       channel_name = name,
                       timestamp = ts,
                       avg_latency_ms = 0,
                       jitter_ms = 0,
                       throughput_mbps = 0,
                       ip_address = ip,
                       asn = fst info,
                       geolocation = fst (snd info),
                       hosting_provider = snd (snd info),
                       success_rate = 0,
                       error_message = Some ''Connection failed''\<rparr>, w2))
         | Inr (Some (avg_latency, jitter)) \<Rightarrow>
             (let (thr, w2) = measure_throughput nt self w1 url 5
              in case thr of
                   Inl e \<Rightarrow> (Inl e, w2)
                 | Inr throughput \<Rightarrow>
                     (let ts = now_isoformat nt (length w2);
                          w3 = w2 @ [CallNow]
                      in (Inr \<lparr>dns_entry = entry,
                               channel_id = py_str stream_id,
                               channel_name = name,
                               timestamp = ts,
                               avg_latency_ms = py_round2 avg_latency,
                               jitter_ms = py_round2 jitter,
                               throughput_mbps =
                                 (case throughput of
                                    None \<Rightarrow> 0
                                  | Some t \<Rightarrow> if t \<noteq> 0 then py_round2 t else 0),
                               ip_address = ip,
                               asn = fst info,
                               geolocation = fst (snd info),
                               hosting_provider = snd (snd info),
                               success_rate = 100,
                               error_message = None\<rparr>, w3))))"

fun channels_loop ::
  "net \<Rightarrow> CDNTester \<Rightarrow> string \<Rightarrow> string \<Rightarrow> asn_info \<Rightarrow> pydict list \<Rightarrow> world \<Rightarrow> TestResult list
    \<Rightarrow> (exn + TestResult list) \<times> world" where
  "channels_loop nt self entry ip info [] w results = (Inr results, w)"
| "channels_loop nt self entry ip info (channel # channels) w results =
     (case test_channel nt self entry ip info channel w of
        (Inl e, w') \<Rightarrow> (Inl e, w')
      | (Inr r, w') \<Rightarrow> channels_loop nt self entry ip info channels w' (results @ [r]))"

text \<open>
  \<^verbatim>\<open>test_endpoint\<close>: the address is resolved once; \<^verbatim>\<open>if not ip_address\<close> holds for \<open>None\<close>
  and for the empty string. Otherwise the endpoint is classified once and every channel is
  tested.
\<close>

definition test_endpoint ::
  "net \<Rightarrow> CDNTester \<Rightarrow> world \<Rightarrow> string \<Rightarrow> pydict list \<Rightarrow> (exn + TestResult list) \<times> world" where
  "test_endpoint nt self w entry channels =
     (let domain = domain_of entry;
          (res, w1) = resolve_dns nt w domain;
          unresolved = (let (results, w2) = unresolved_loop nt entry channels w1 []
                        in (Inr results, w2))
      in case res of
           Inl e \<Rightarrow> (Inl e, w1)
         | Inr None \<Rightarrow> unresolved
         | Inr (Some ip) \<Rightarrow>
             if ip = [] then unresolved
             else
               (let (cls, w2) = get_asn_info nt w1 ip
                in case cls of
                     Inl e \<Rightarrow> (Inl e, w2)
                   | Inr info \<Rightarrow> channels_loop nt self entry ip info channels w2 []))"

section \<open>The run over all endpoints\<close>

fun run_loop ::
  "net \<Rightarrow> CDNTester \<Rightarrow> string list \<Rightarrow> pydict list \<Rightarrow> world \<Rightarrow> TestResult list
    \<Rightarrow> (exn + TestResult list) \<times> world" where
  "run_loop nt self [] channels w all_results = (Inr all_results, w)"
| "run_loop nt self (entry # entries) channels w all_results =
     (case test_endpoint nt self w entry channels of
        (Inl e, w') \<Rightarrow> (Inl e, w')
      | (Inr results, w') \<Rightarrow> run_loop nt self entries channels w' (all_results @ results))"

definition run_tests ::
  "net \<Rightarrow> CDNTester \<Rightarrow> world \<Rightarrow> string list \<Rightarrow> pydict list \<Rightarrow> (exn + TestResult list) \<times> world" where
  "run_tests nt self w dns_entries channels = run_loop nt self dns_entries channels w []"

subsection \<open>Notions used to state the orchestration properties\<close>

text \<open>
  The identifier and the name under which an item appears in a record, the pairing
  (endpoint, item) that a record carries, and the mark of a record made for an endpoint
  that did not resolve.
\<close>

definition item_id :: "pydict \<Rightarrow> string" where
  "item_id channel = py_str (dict_get channel ''stream_id'' PNone)"

definition item_name :: "pydict \<Rightarrow> pyval" where
  "item_name channel = dict_get channel ''name'' (PStr ''Unknown'')"

definition item_key :: "pydict \<Rightarrow> string \<times> pyval" where
  "item_key channel = (item_id channel, item_name channel)"

definition has_stream_id :: "pydict \<Rightarrow> bool" where
  "has_stream_id channel = (channel ''stream_id'' \<noteq> None)"

definition pairing :: "TestResult \<Rightarrow> string \<times> string \<times> pyval" where
  "pairing r = (dns_entry r, channel_id r, channel_name r)"

definition dns_failure_marked :: "string \<Rightarrow> TestResult \<Rightarrow> bool" where
  "dns_failure_marked entry r =
     (dns_entry r = entry \<and> success_rate r = 0 \<and> error_message r = Some ''DNS resolution failed''
      \<and> ip_address r = ''N/A'' \<and> avg_latency_ms r = 0 \<and> jitter_ms r = 0 \<and> throughput_mbps r = 0
      \<and> asn r = None \<and> geolocation r = None \<and> hosting_provider r = None)"

text \<open>The success indicator of a record is binary and agrees with its error message.\<close>

definition indicator_ok :: "TestResult \<Rightarrow> bool" where
  "indicator_ok r =
     ((success_rate r = 0 \<or> success_rate r = 100)
      \<and> (success_rate r = 100) = (error_message r = None)
      \<and> (success_rate r = 0) = (error_message r \<noteq> None))"

text \<open>
  What the three kinds of loop promise about the record made for a channel: the record of
  an endpoint that did not resolve, the record of a tested channel, and what both share.
\<close>

definition unresolved_for :: "string \<Rightarrow> pydict \<Rightarrow> TestResult \<Rightarrow> bool" where
  "unresolved_for entry channel r =
     (dns_failure_marked entry r
      \<and> channel_id r = py_str (dict_get channel ''stream_id'' (PStr ''unknown''))
      \<and> channel_name r = item_name channel)"

definition tested_for :: "string \<Rightarrow> string \<Rightarrow> asn_info \<Rightarrow> pydict \<Rightarrow> TestResult \<Rightarrow> bool" where
  "tested_for entry ip info channel r =
     (dns_entry r = entry \<and> channel_id r = item_id channel \<and> channel_name r = item_name channel
      \<and> ip_address r = ip \<and> asn r = fst info \<and> geolocation r = fst (snd info)
      \<and> hosting_provider r = snd (snd info) \<and> indicator_ok r)"

definition result_for :: "string \<Rightarrow> pydict \<Rightarrow> TestResult \<Rightarrow> bool" where
  "result_for entry channel r =
     (dns_entry r = entry \<and> channel_name r = item_name channel
      \<and> (has_stream_id channel \<longrightarrow> channel_id r = item_id channel)
      \<and> indicator_ok r)"

text \<open>
  The user agent that a logged call sent, whether a call is a download, and a log in which
  every request carries the given user agent.
\<close>

fun sent_user_agent :: "call \<Rightarrow> string option" where
  "sent_user_agent (CallHead url ua) = Some ua"
| "sent_user_agent (CallGet url ua tmo) = Some ua"
| "sent_user_agent c = None"

fun is_get :: "call \<Rightarrow> bool" where
  "is_get (CallGet url ua tmo) = True"
| "is_get c = False"

definition requests_carry :: "string \<Rightarrow> world \<Rightarrow> bool" where
  "requests_carry ua w = list_all (\<lambda>c. sent_user_agent c = None \<or> sent_user_agent c = Some ua) w"

section \<open>Ranking in the report\<close>



text \<open>A score is a float: a finite number or \<^verbatim>\<open>float('inf')\<close>, which is above every number.\<close>

datatype score = Finite real | Infinity

instantiation score :: linorder
begin

fun less_eq_score :: "score \<Rightarrow> score \<Rightarrow> bool" where
  "less_eq_score (Finite a) (Finite b) = (a \<le> b)"
| "less_eq_score (Finite a) Infinity = True"
| "less_eq_score Infinity (Finite b) = False"
| "less_eq_score Infinity Infinity = True"

definition less_score :: "score \<Rightarrow> score \<Rightarrow> bool" where
  "less_score x y = (x \<le> y \<and> \<not> y \<le> x)"

instance
proof
  fix x y z :: score
  show "(x < y) = (x \<le> y \<and> \<not> y \<le> x)"
    by (simp add: less_score_def)
  show "x \<le> x"
    by (cases x) simp_all
  show "x \<le> y \<Longrightarrow> y \<le> z \<Longrightarrow> x \<le> z"
    by (cases x; cases y; cases z) simp_all
  show "x \<le> y \<Longrightarrow> y \<le> x \<Longrightarrow> x = y"
    by (cases x; cases y) simp_all
  show "x \<le> y \<or> y \<le> x"
    by (cases x; cases y) auto
qed

end




subsection \<open>Notions used to state the ranking properties\<close>

text \<open>
  The endpoints of a result list in the order in which they are first seen, the records of
  one endpoint, and the composite score as the specification words it: the mean latency
  minus ten times the mean throughput over the successful records, or infinity when there
  is none.
\<close>

fun first_seen :: "string list \<Rightarrow> string list" where
  "first_seen [] = []"
| "first_seen (x # xs) = x # first_seen (filter (\<lambda>y. y \<noteq> x) xs)"





section \<open>Example inputs\<close>

text \<open>Concrete testers, networks and channel lists, used to run the model.\<close>

definition example_tester :: CDNTester where
  "example_tester =
     \<lparr>username = ''user'', password = ''pw'', user_agent = ''TiviMate/4.4.0 (Android 11)''\<rparr>"

text \<open>A network where every call raises.\<close>

definition net_down :: net where
  "net_down =
     \<lparr>getaddrinfo = (\<lambda>t d. GaiRaised OSError),
      ipapi_get = (\<lambda>t u. IpapiRaised TimeoutError),
      http_head = (\<lambda>t u ua. HeadRaised ClientError),
      http_get = (\<lambda>t u ua tmo. GetRaised ClientError),
      now_isoformat = (\<lambda>t. ''2024-01-01T00:00:00'')\<rparr>"

text \<open>
  A network where the second and the fourth call time out when they are HEAD requests, the
  classifier is rate-limited, and a download stalls after 12288 bytes.
\<close>

definition net_flaky :: net where
  "net_flaky =
     \<lparr>getaddrinfo = (\<lambda>t d. GaiResult [''203.0.113.7'']),
      ipapi_get = (\<lambda>t u. IpapiResp 429 BodyOther),
      http_head = (\<lambda>t u ua.
         if t = 1 \<or> t = 3 then HeadRaised TimeoutError
         else HeadResp (if t = 2 then 403 else if t = 4 then 302 else 200) (real (10 + t) / 1000)),
      http_get = (\<lambda>t u ua tmo. GetResp 200 [(8192, 1), (4096, 2)] (StreamRaised TimeoutError) 10),
      now_isoformat = (\<lambda>t. ''2024-01-01T00:00:00'')\<rparr>"



text \<open>A network whose resolver returns no entry and whose classifier sends an undecodable body.\<close>

definition net_odd :: net where
  "net_odd =
     \<lparr>getaddrinfo = (\<lambda>t d. GaiResult []),
      ipapi_get = (\<lambda>t u. IpapiResp 200 (BodyRaised ValueError)),
      http_head = (\<lambda>t u ua. HeadResp 500 (1 / 100)),
      http_get = (\<lambda>t u ua tmo. GetResp 404 [] StreamEof 1),
      now_isoformat = (\<lambda>t. ''2024-01-01T00:00:00'')\<rparr>"

text \<open>
  Two channels, and a network where \<open>down.example\<close> does not resolve, the classifier
  answers, the HEAD requests for channel 102 time out and every download is refused.
\<close>

definition example_channels :: "pydict list" where
  "example_channels =
     [[''stream_id'' \<mapsto> PObj ''101'', ''name'' \<mapsto> PStr ''News''],
      [''stream_id'' \<mapsto> PObj ''102'', ''name'' \<mapsto> PStr ''Sport'']]"

definition net_mixed :: net where
  "net_mixed =
     \<lparr>getaddrinfo = (\<lambda>t d. if d = ''down.example'' then GaiRaised OSError
                            else GaiResult [''203.0.113.7'']),
      ipapi_get = (\<lambda>t u. IpapiResp 200 (BodyDict
         [''asn'' \<mapsto> PStr ''AS13335'', ''org'' \<mapsto> PStr ''Cloudflare, Inc.'',
          ''city'' \<mapsto> PStr ''Paris'', ''country_name'' \<mapsto> PStr ''France''])),
      http_head = (\<lambda>t u ua. if u = ''http://up.example/live/user/pw/102.ts''
                             then HeadRaised TimeoutError else HeadResp 200 (1 / 50)),
      http_get = (\<lambda>t u ua tmo. GetRaised ClientError),
      now_isoformat = (\<lambda>t. ''2024-01-01T00:00:00'')\<rparr>"

text \<open>
  The records that a run over \<open>http://down.example\<close> and \<open>http://up.example\<close> with the two
  channels produces on that network, and the record of an unresolved endpoint on the
  network where every call raises.
\<close>

definition example_run_results :: "TestResult list" where
  "example_run_results =
     [\<lparr>dns_entry = ''http://down.example'', channel_id = ''101'', channel_name = PStr ''News'',
        timestamp = ''2024-01-01T00:00:00'', avg_latency_ms = 0, jitter_ms = 0,
        throughput_mbps = 0, ip_address = ''N/A'', asn = None, geolocation = None,
        hosting_provider = None, success_rate = 0,
        error_message = Some ''DNS resolution failed''\<rparr>,
      \<lparr>dns_entry = ''http://down.example'', channel_id = ''102'', channel_name = PStr ''Sport'',
        timestamp = ''2024-01-01T00:00:00'', avg_latency_ms = 0, jitter_ms = 0,
        throughput_mbps = 0, ip_address = ''N/A'', asn = None, geolocation = None,
        hosting_provider = None, success_rate = 0,
        error_message = Some ''DNS resolution failed''\<rparr>,
      \<lparr>dns_entry = ''http://up.example'', channel_id = ''101'', channel_name = PStr ''News'',
        timestamp = ''2024-01-01T00:00:00'', avg_latency_ms = 20, jitter_ms = 0,
        throughput_mbps = 0, ip_address = ''203.0.113.7'',
        asn = Some ''ASAS13335 - Cloudflare, Inc.'', geolocation = Some ''Paris, France'',
        hosting_provider = Some ''Cloudflare'', success_rate = 100,
        error_message = None\<rparr>,
      \<lparr>dns_entry = ''http://up.example'', channel_id = ''102'', channel_name = PStr ''Sport'',
        timestamp = ''2024-01-01T00:00:00'', avg_latency_ms = 0, jitter_ms = 0,
        throughput_mbps = 0, ip_address = ''203.0.113.7'',
        asn = Some ''ASAS13335 - Cloudflare, Inc.'', geolocation = Some ''Paris, France'',
        hosting_provider = Some ''Cloudflare'', success_rate = 0,
        error_message = Some ''Connection failed''\<rparr>]"

definition example_unresolved :: TestResult where
  "example_unresolved =
     \<lparr>dns_entry = ''http://a.example'', channel_id = ''101'', channel_name = PStr ''News'',
      timestamp = ''2024-01-01T00:00:00'', avg_latency_ms = 0, jitter_ms = 0,
      throughput_mbps = 0, ip_address = ''N/A'', asn = None, geolocation = None,
      hosting_provider = None, success_rate = 0,
      error_message = Some ''DNS resolution failed''\<rparr>"

section \<open>Strings and provider identification: proofs\<close>

lemma lower_char_idem: "lower_char (lower_char c) = lower_char c"
  by (cases c) (auto simp: Let_def)

lemma lower_idem: "lower (lower s) = lower s"
  by (simp add: lower_def lower_char_idem)












section \<open>Probes, meter, resolver and classifier: proofs\<close>

lemma ping_loop_eq:
  "ping_loop nt ua url n w lat =
     (lat @ accepted_samples (probe_outcomes nt ua url w n), w @ replicate n (CallHead url ua))"
proof (induction n arbitrary: w lat)
  case 0
  then show ?case by (simp add: probe_outcomes_def accepted_samples_def List.map_filter_simps)
next
  case (Suc n)
  have po: "probe_outcomes nt ua url w (Suc n) =
      http_head nt (length w) url ua # probe_outcomes nt ua url (w @ [CallHead url ua]) n"
    by (simp add: probe_outcomes_def upt_conv_Cons map_Suc_upt [symmetric] del: upt_Suc)
  have rp: "w @ replicate (Suc n) c = (w @ [c]) @ replicate n c" for c :: call
    by (simp add: replicate_app_Cons_same)
  show ?case
    unfolding po rp
    by (cases "http_head nt (length w) url ua")
       (auto simp: Suc.IH accepted_samples_def List.map_filter_simps Let_def)
qed

lemma latency_summary_eq:
  "latency_summary xs =
     (if xs = [] then Inr None
      else Inr (Some (mean_spec xs, if 1 < length xs then sample_stdev_spec xs else 0)))"
proof -
  have "real (length xs - 1) = real (length xs) - 1" if "1 < length xs"
    using that by (simp add: of_nat_diff)
  then show ?thesis
    by (auto simp: latency_summary_def statistics_mean_def statistics_stdev_def mean_spec_def
        sample_stdev_spec_def Let_def)
qed

lemma sample_stdev_spec_nonneg: "0 \<le> sample_stdev_spec xs" if "1 < length xs"
  unfolding sample_stdev_spec_def
  using that by (intro real_sqrt_ge_zero divide_nonneg_nonneg sum_list_nonneg) auto

lemma measure_latency_eq:
  "measure_latency nt self w url n =
    (let xs = accepted_samples (probe_outcomes nt (user_agent self) url w n)
     in (if xs = [] then Inr None
         else Inr (Some (mean_spec xs, if 1 < length xs then sample_stdev_spec xs else 0)),
         w @ replicate n (CallHead url (user_agent self))))"
  by (simp add: measure_latency_def ping_loop_eq latency_summary_eq Let_def)

lemma read_chunks_within:
  "within_duration duration chunks \<Longrightarrow>
   read_chunks duration chunks fin b =
     (b + sum_list (map fst chunks), case fin of StreamEof \<Rightarrow> None | StreamRaised e \<Rightarrow> Some e)"
proof (induction chunks arbitrary: b)
  case Nil
  then show ?case by (cases fin) simp_all
next
  case (Cons c chunks)
  then show ?case by (cases c) (simp add: within_duration_def)
qed

lemma measure_throughput_except_ok:
  "0 < duration \<Longrightarrow> \<exists>r. measure_throughput_except duration b e = Inr r
      \<and> (\<forall>v. r = Some v \<longrightarrow> 0 \<le> v)"
  by (simp add: measure_throughput_except_def)

lemma throughput_result_cases:
  assumes "0 < duration" and "clock_monotonic out"
  shows "\<exists>r. throughput_result duration out = Inr r \<and> (\<forall>v. r = Some v \<longrightarrow> 0 \<le> v)"
proof (cases out)
  case (GetRaised e)
  then show ?thesis
    using measure_throughput_except_ok [OF assms(1)]
    by (simp add: throughput_result_def measure_throughput_try_def)
next
  case (GetResp status chunks fin elapsed)
  then have el: "0 \<le> elapsed" using assms(2) by simp
  obtain b x where rc: "read_chunks duration chunks fin 0 = (b, x)"
    by (cases "read_chunks duration chunks fin 0")
  show ?thesis
  proof (cases "status = 200")
    case False
    then show ?thesis
      using GetResp by (simp add: throughput_result_def measure_throughput_try_def)
  next
    case True
    show ?thesis
    proof (cases x)
      case None
      then show ?thesis
        using GetResp True rc el measure_throughput_except_ok [OF assms(1), of b ZeroDivisionError]
        by (auto simp: throughput_result_def measure_throughput_try_def)
    next
      case (Some e)
      then show ?thesis
        using GetResp True rc measure_throughput_except_ok [OF assms(1), of b e]
        by (auto simp: throughput_result_def measure_throughput_try_def)
    qed
  qed
qed

lemma throughput_timeout:
  assumes "0 < duration" and "within_duration duration chunks"
    and "0 < sum_list (map fst chunks)"
  shows "throughput_result duration (GetResp 200 chunks (StreamRaised TimeoutError) elapsed) =
     Inr (Some (real (sum_list (map fst chunks) * 8) / real_of_int (duration * 1000000)))"
  using assms
  by (simp add: throughput_result_def measure_throughput_try_def read_chunks_within
      measure_throughput_except_def)

lemma throughput_other_failures:
  shows "throughput_result duration (GetRaised e) = Inr None"
    and "status \<noteq> 200 \<Longrightarrow> throughput_result duration (GetResp status chunks fin elapsed) = Inr None"
    and "e \<noteq> TimeoutError \<Longrightarrow> within_duration duration chunks \<Longrightarrow>
      throughput_result duration (GetResp 200 chunks (StreamRaised e) elapsed) = Inr None"
    and "throughput_result duration (GetResp 200 [] (StreamRaised e) elapsed) = Inr None"
  by (simp_all add: throughput_result_def measure_throughput_try_def read_chunks_within
      measure_throughput_except_def)

lemma resolve_dns_cases:
  "fst (resolve_dns nt w d) =
     (case getaddrinfo nt (length w) d of
        GaiRaised e \<Rightarrow> Inr None
      | GaiResult [] \<Rightarrow> Inr None
      | GaiResult (h # t) \<Rightarrow> Inr (Some h))"
  by (simp add: resolve_dns_def resolve_dns_try_def Let_def split: gai_outcome.splits list.splits)

lemma get_asn_info_never_raises: "\<exists>i. fst (get_asn_info nt w ip) = Inr i"
  by (simp add: get_asn_info_def Let_def split: sum.splits option.splits)

lemma get_asn_info_failures:
  shows "ipapi_get nt (length w) (''https://ipapi.co/'' @ ip @ ''/json/'') = IpapiRaised e \<Longrightarrow>
      fst (get_asn_info nt w ip) = Inr (None, None, None)"
    and "ipapi_get nt (length w) (''https://ipapi.co/'' @ ip @ ''/json/'') = IpapiResp status body \<Longrightarrow>
      status \<noteq> 200 \<Longrightarrow> fst (get_asn_info nt w ip) = Inr (None, None, None)"
    and "ipapi_get nt (length w) (''https://ipapi.co/'' @ ip @ ''/json/'') = IpapiResp 200 (BodyRaised e) \<Longrightarrow>
      fst (get_asn_info nt w ip) = Inr (None, None, None)"
  by (simp_all add: get_asn_info_def get_asn_info_try_def Let_def)

text \<open>
  Claim C6. The latency probe counts exactly the responses whose status is 200, 302, 401 or
  403; an attempt that raises or is answered with another status is skipped. The probe
  never raises: with no accepted sample it returns "no data", and otherwise the mean and
  the jitter of the accepted samples only (so five attempts of which two time out give the
  summary of the other three). It issues exactly \<open>n\<close> HEAD requests.
\<close>

theorem measure_latency_accepted_samples:
  assumes "xs = accepted_samples (probe_outcomes nt (user_agent self) url w n)"
  shows "(xs = [] \<longrightarrow> fst (measure_latency nt self w url n) = Inr None)
       \<and> (xs \<noteq> [] \<longrightarrow> fst (measure_latency nt self w url n) =
             Inr (Some (mean_spec xs, if 1 < length xs then sample_stdev_spec xs else 0)))
       \<and> (\<exists>r. fst (measure_latency nt self w url n) = Inr r)
       \<and> snd (measure_latency nt self w url n) = w @ replicate n (CallHead url (user_agent self))"
  using assms by (simp add: measure_latency_eq Let_def)

theorem measure_latency_accepted_samples_witness:
  "length (probe_outcomes net_flaky (user_agent example_tester) ''http://a/1.ts'' [] 5) = 5
   \<and> accepted_samples (probe_outcomes net_flaky (user_agent example_tester) ''http://a/1.ts'' [] 5)
       = [10, 12, 14]
   \<and> fst (measure_latency net_flaky example_tester [] ''http://a/1.ts'' 5) = Inr (Some (12, 2))
   \<and> accepted_samples (probe_outcomes net_down (user_agent example_tester) ''http://a/1.ts'' [] 5)
       = []
   \<and> fst (measure_latency net_down example_tester [] ''http://a/1.ts'' 5) = Inr None"
proof -
  have a: "accepted_samples (probe_outcomes net_flaky (user_agent example_tester) ''http://a/1.ts'' [] 5)
      = [10, 12, 14]"
    by (simp add: probe_outcomes_def accepted_samples_def net_flaky_def List.map_filter_simps
        upt_conv_Cons)
  have b: "accepted_samples (probe_outcomes net_down (user_agent example_tester) ''http://a/1.ts'' [] 5)
      = []"
    by (simp add: probe_outcomes_def accepted_samples_def net_down_def List.map_filter_simps
        upt_conv_Cons)
  have c: "mean_spec [10, 12, 14] = 12" "sample_stdev_spec [10, 12, 14] = 2"
    by (simp_all add: sample_stdev_spec_def mean_spec_def)
  have "fst (measure_latency net_flaky example_tester [] ''http://a/1.ts'' 5) = Inr (Some (12, 2))"
    using measure_latency_accepted_samples [OF a [symmetric]] c by simp
  moreover have "fst (measure_latency net_down example_tester [] ''http://a/1.ts'' 5) = Inr None"
    using measure_latency_accepted_samples [OF b [symmetric]] by simp
  ultimately show ?thesis
    using a b by (simp add: probe_outcomes_def)
qed

text \<open>
  Claim C7. Whenever the latency probe returns a pair (mean latency, jitter), the jitter is
  not negative; it is exactly 0 when exactly one sample was accepted, and the sample
  standard deviation of the accepted samples when more than one was.
\<close>

theorem measure_latency_jitter:
  assumes "fst (measure_latency nt self w url n) = Inr (Some (m, j))"
    and "xs = accepted_samples (probe_outcomes nt (user_agent self) url w n)"
  shows "0 \<le> j \<and> xs \<noteq> [] \<and> m = mean_spec xs
       \<and> (length xs = 1 \<longrightarrow> j = 0)
       \<and> (1 < length xs \<longrightarrow> j = sample_stdev_spec xs)"
proof -
  have ne: "xs \<noteq> []"
    using assms by (auto simp: measure_latency_eq Let_def)
  then have "m = mean_spec xs" and j: "j = (if 1 < length xs then sample_stdev_spec xs else 0)"
    using assms by (auto simp: measure_latency_eq Let_def)
  moreover have "0 \<le> j"
    using j sample_stdev_spec_nonneg [of xs] by auto
  ultimately show ?thesis
    using ne by auto
qed

theorem measure_latency_jitter_witness:
  "fst (measure_latency net_flaky example_tester [] ''http://a/1.ts'' 1) = Inr (Some (10, 0))
   \<and> accepted_samples (probe_outcomes net_flaky (user_agent example_tester) ''http://a/1.ts'' [] 1)
       = [10]
   \<and> fst (measure_latency net_flaky example_tester [] ''http://a/1.ts'' 5) = Inr (Some (12, 2))
   \<and> accepted_samples (probe_outcomes net_flaky (user_agent example_tester) ''http://a/1.ts'' [] 5)
       = [10, 12, 14]
   \<and> sample_stdev_spec [10, 12, 14] = 2 \<and> (0::real) \<le> 2"
proof -
  have a1: "accepted_samples (probe_outcomes net_flaky (user_agent example_tester) ''http://a/1.ts'' [] 1)
      = [10]"
    and a5: "accepted_samples (probe_outcomes net_flaky (user_agent example_tester) ''http://a/1.ts'' [] 5)
      = [10, 12, 14]"
    by (simp_all add: probe_outcomes_def accepted_samples_def net_flaky_def List.map_filter_simps
        upt_conv_Cons)
  have c: "mean_spec [10, 12, 14] = 12" "sample_stdev_spec [10, 12, 14] = 2" "mean_spec [10] = 10"
    by (simp_all add: sample_stdev_spec_def mean_spec_def)
  have r1: "fst (measure_latency net_flaky example_tester [] ''http://a/1.ts'' 1) = Inr (Some (10, 0))"
    using a1 c by (simp add: measure_latency_eq Let_def)
  have r5: "fst (measure_latency net_flaky example_tester [] ''http://a/1.ts'' 5) = Inr (Some (12, 2))"
    using a5 c by (simp add: measure_latency_eq Let_def)
  show ?thesis
    using measure_latency_jitter [OF r1 a1 [symmetric]] measure_latency_jitter [OF r5 a5 [symmetric]]
      r1 r5 a1 a5 c
    by simp
qed

text \<open>
  Claim C5. For a positive configured duration and a monotonic clock, the throughput meter
  never raises and every value it returns is at least 0 (a real number, hence finite). When
  the request times out after some bytes were received, the value is the number of bytes
  received times 8, divided by the configured duration times 1000000. Every other failure
  gives "no data": a request that raises, a status other than 200, a stream that fails
  with another exception, and a timeout before the first byte.
\<close>

theorem measure_throughput_timeout_estimate:
  assumes "0 < duration" and "clock_monotonic out"
  shows "fst (measure_throughput nt self w url duration) =
           throughput_result duration (http_get nt (length w) url (user_agent self) (duration + 5))
       \<and> (\<exists>r. throughput_result duration out = Inr r \<and> (\<forall>v. r = Some v \<longrightarrow> 0 \<le> v))
       \<and> (out = GetResp 200 chunks (StreamRaised TimeoutError) elapsed
            \<and> within_duration duration chunks \<and> 0 < sum_list (map fst chunks) \<longrightarrow>
          throughput_result duration out =
            Inr (Some (real (sum_list (map fst chunks) * 8) / real_of_int (duration * 1000000))))
       \<and> (out = GetRaised e \<longrightarrow> throughput_result duration out = Inr None)
       \<and> (out = GetResp status chunks fin elapsed \<and> status \<noteq> 200 \<longrightarrow>
          throughput_result duration out = Inr None)
       \<and> (out = GetResp 200 chunks (StreamRaised e) elapsed \<and> within_duration duration chunks
            \<and> (e \<noteq> TimeoutError \<or> sum_list (map fst chunks) = 0) \<longrightarrow>
          throughput_result duration out = Inr None)"
proof -
  have ex: "measure_throughput_except duration b e = Inr None" if "e \<noteq> TimeoutError \<or> b = 0" for b
    using that by (auto simp: measure_throughput_except_def)
  have "throughput_result duration (GetResp 200 chunks (StreamRaised e) elapsed) =
      measure_throughput_except duration (sum_list (map fst chunks)) e"
    if "within_duration duration chunks"
    using that
    by (simp add: throughput_result_def measure_throughput_try_def read_chunks_within)
  then have "throughput_result duration (GetResp 200 chunks (StreamRaised e) elapsed) = Inr None"
    if "within_duration duration chunks" and "e \<noteq> TimeoutError \<or> sum_list (map fst chunks) = 0"
    using that ex [of "sum_list (map fst chunks)"] by presburger
  then show ?thesis
    using throughput_result_cases [OF assms] throughput_timeout [OF assms(1)]
      throughput_other_failures(1,2)
    by (simp add: measure_throughput_def Let_def)
qed

theorem measure_throughput_timeout_estimate_witness:
  "throughput_result 5 (GetResp 200 [(8192, 1), (4096, 2)] (StreamRaised TimeoutError) 10) =
     Inr (Some (98304 / 5000000))
   \<and> throughput_result 5 (GetRaised ClientError) = Inr None
   \<and> throughput_result 5 (GetResp 404 [(8192, 1)] StreamEof 2) = Inr None
   \<and> throughput_result 5 (GetResp 200 [(8192, 1)] (StreamRaised ClientError) 2) = Inr None
   \<and> throughput_result 5 (GetResp 200 [] (StreamRaised TimeoutError) 10) = Inr None
   \<and> throughput_result 5 (GetResp 200 [(8192, 2), (8192, 6), (100, 7)] StreamEof (13 / 2)) =
     Inr (Some (131072 / 6500000))
   \<and> (0::real) \<le> 131072 / 6500000"
proof -
  have d: "(0::int) < 5" by simp
  have wd: "within_duration 5 [(8192, 1), (4096, 2)]" "within_duration 5 [(8192, 1)]"
    "within_duration 5 []"
    by (simp_all add: within_duration_def)
  have r1: "throughput_result 5 (GetResp 200 [(8192, 1), (4096, 2)] (StreamRaised TimeoutError) 10) =
     Inr (Some (98304 / 5000000))"
    using measure_throughput_timeout_estimate [OF d, of
        "GetResp 200 [(8192, 1), (4096, 2)] (StreamRaised TimeoutError) 10"
        net_down example_tester "[]" "''u''" "[(8192, 1), (4096, 2)]" 10] wd
    by simp
  have r2: "throughput_result 5 (GetRaised ClientError) = Inr None"
    using measure_throughput_timeout_estimate [OF d, of "GetRaised ClientError"
        net_down example_tester "[]" "''u''" _ _ ClientError]
    by simp
  have r3: "throughput_result 5 (GetResp 404 [(8192, 1)] StreamEof 2) = Inr None"
    using measure_throughput_timeout_estimate [OF d, of "GetResp 404 [(8192, 1)] StreamEof 2"
        net_down example_tester "[]" "''u''" "[(8192, 1)]" 2 _ 404 StreamEof]
    by simp
  have r4: "throughput_result 5 (GetResp 200 [(8192, 1)] (StreamRaised ClientError) 2) = Inr None"
    using measure_throughput_timeout_estimate [OF d, of
        "GetResp 200 [(8192, 1)] (StreamRaised ClientError) 2"
        net_down example_tester "[]" "''u''" "[(8192, 1)]" 2 ClientError] wd
    by simp
  have r5: "throughput_result 5 (GetResp 200 [] (StreamRaised TimeoutError) 10) = Inr None"
    using measure_throughput_timeout_estimate [OF d, of
        "GetResp 200 [] (StreamRaised TimeoutError) 10"
        net_down example_tester "[]" "''u''" "[]" 10 TimeoutError] wd
    by simp
  have r6: "throughput_result 5 (GetResp 200 [(8192, 2), (8192, 6), (100, 7)] StreamEof (13 / 2)) =
     Inr (Some (131072 / 6500000))"
    by (simp add: throughput_result_def measure_throughput_try_def)
  show ?thesis
    using r1 r2 r3 r4 r5 r6 by simp
qed

text \<open>
  Claim C8. Neither the resolver nor the classifier raises, whatever the network does.
  \<open>resolve_dns\<close> returns \<open>None\<close> when the lookup raises (and when it returns no entry),
  and an address exactly when the lookup returned one. \<open>get_asn_info\<close> returns three
  \<open>None\<close>s when the request raises, when the status is not 200 and when the body cannot
  be decoded.
\<close>

theorem network_failures_do_not_propagate:
  "(\<exists>r. fst (resolve_dns nt w d) = Inr r)
   \<and> (getaddrinfo nt (length w) d = GaiRaised e \<longrightarrow> fst (resolve_dns nt w d) = Inr None)
   \<and> (getaddrinfo nt (length w) d = GaiResult [] \<longrightarrow> fst (resolve_dns nt w d) = Inr None)
   \<and> (getaddrinfo nt (length w) d = GaiResult (h # t) \<longrightarrow> fst (resolve_dns nt w d) = Inr (Some h))
   \<and> (\<exists>i. fst (get_asn_info nt w ip) = Inr i)
   \<and> (ipapi_get nt (length w) (''https://ipapi.co/'' @ ip @ ''/json/'') = IpapiRaised e' \<longrightarrow>
        fst (get_asn_info nt w ip) = Inr (None, None, None))
   \<and> (ipapi_get nt (length w) (''https://ipapi.co/'' @ ip @ ''/json/'') = IpapiResp status body
        \<and> status \<noteq> 200 \<longrightarrow> fst (get_asn_info nt w ip) = Inr (None, None, None))
   \<and> (ipapi_get nt (length w) (''https://ipapi.co/'' @ ip @ ''/json/'') = IpapiResp 200 (BodyRaised e')
        \<longrightarrow> fst (get_asn_info nt w ip) = Inr (None, None, None))"
proof -
  have "\<exists>r. fst (resolve_dns nt w d) = Inr r"
    by (simp add: resolve_dns_cases split: gai_outcome.splits list.splits)
  moreover have "getaddrinfo nt (length w) d = GaiRaised e \<longrightarrow> fst (resolve_dns nt w d) = Inr None"
    and "getaddrinfo nt (length w) d = GaiResult [] \<longrightarrow> fst (resolve_dns nt w d) = Inr None"
    and "getaddrinfo nt (length w) d = GaiResult (h # t) \<longrightarrow> fst (resolve_dns nt w d) = Inr (Some h)"
    by (simp_all add: resolve_dns_cases)
  ultimately show ?thesis
    using get_asn_info_never_raises [of nt w ip] get_asn_info_failures [of nt w ip]
    by blast
qed

theorem network_failures_do_not_propagate_witness:
  "fst (resolve_dns net_down [] ''a.example'') = Inr None
   \<and> fst (resolve_dns net_odd [] ''a.example'') = Inr None
   \<and> fst (resolve_dns net_flaky [] ''a.example'') = Inr (Some ''203.0.113.7'')
   \<and> fst (get_asn_info net_down [] ''203.0.113.7'') = Inr (None, None, None)
   \<and> fst (get_asn_info net_flaky [] ''203.0.113.7'') = Inr (None, None, None)
   \<and> fst (get_asn_info net_odd [] ''203.0.113.7'') = Inr (None, None, None)"
proof -
  have g: "getaddrinfo net_down (length ([]::world)) ''a.example'' = GaiRaised OSError"
    "getaddrinfo net_odd (length ([]::world)) ''a.example'' = GaiResult []"
    "getaddrinfo net_flaky (length ([]::world)) ''a.example'' = GaiResult (''203.0.113.7'' # [])"
    by (simp_all add: net_down_def net_odd_def net_flaky_def)
  have i: "ipapi_get net_down (length ([]::world)) (''https://ipapi.co/'' @ ''203.0.113.7'' @ ''/json/'')
        = IpapiRaised TimeoutError"
    "ipapi_get net_flaky (length ([]::world)) (''https://ipapi.co/'' @ ''203.0.113.7'' @ ''/json/'')
        = IpapiResp 429 BodyOther \<and> (429::nat) \<noteq> 200"
    "ipapi_get net_odd (length ([]::world)) (''https://ipapi.co/'' @ ''203.0.113.7'' @ ''/json/'')
        = IpapiResp 200 (BodyRaised ValueError)"
    by (simp_all add: net_down_def net_odd_def net_flaky_def)
  note t = network_failures_do_not_propagate
  have "fst (resolve_dns net_down [] ''a.example'') = Inr None"
    using t [where nt = net_down and w = "[]" and d = "''a.example''" and e = OSError] g(1) by blast
  moreover have "fst (resolve_dns net_odd [] ''a.example'') = Inr None"
    using t [where nt = net_odd and w = "[]" and d = "''a.example''"] g(2) by blast
  moreover have "fst (resolve_dns net_flaky [] ''a.example'') = Inr (Some ''203.0.113.7'')"
    using t [where nt = net_flaky and w = "[]" and d = "''a.example''"
        and h = "''203.0.113.7''" and t = "[]"] g(3) by blast
  moreover have "fst (get_asn_info net_down [] ''203.0.113.7'') = Inr (None, None, None)"
    using t [where nt = net_down and w = "[]" and ip = "''203.0.113.7''" and e' = TimeoutError] i(1)
    by blast
  moreover have "fst (get_asn_info net_flaky [] ''203.0.113.7'') = Inr (None, None, None)"
    using t [where nt = net_flaky and w = "[]" and ip = "''203.0.113.7''" and status = 429
        and body = BodyOther] i(2)
    by blast
  moreover have "fst (get_asn_info net_odd [] ''203.0.113.7'') = Inr (None, None, None)"
    using t [where nt = net_odd and w = "[]" and ip = "''203.0.113.7''" and e' = ValueError] i(3)
    by blast
  ultimately show ?thesis
    by blast
qed

section \<open>Orchestration: proofs\<close>

lemma throughput_result_no_raise:
  assumes "0 < duration"
  shows "\<exists>r. throughput_result duration out = Inr r"
proof -
  have ex: "\<exists>r. measure_throughput_except duration b e = Inr r" for b e
    using assms by (simp add: measure_throughput_except_def)
  show ?thesis
  proof (cases "measure_throughput_try duration out")
    case (Pair b res)
    then show ?thesis
      using ex by (cases res) (auto simp: throughput_result_def)
  qed
qed

lemma measure_throughput_5:
  "\<exists>thr. measure_throughput nt self w url 5 =
     (Inr thr, w @ [CallGet url (user_agent self) 10])"
  using throughput_result_no_raise [of 5]
  by (simp add: measure_throughput_def Let_def)

lemma measure_latency_no_raise:
  "\<exists>lat. measure_latency nt self w url n =
     (Inr lat, w @ replicate n (CallHead url (user_agent self)))"
  by (simp add: measure_latency_eq Let_def)

lemma test_channel_cases:
  fixes nt self entry ip info channel w
  defines "url \<equiv> stream_url self entry channel"
  defines "w1 \<equiv> w @ replicate 5 (CallHead url (user_agent self))"
  shows "(fst (measure_latency nt self w url 5) = Inr None \<and>
          (\<exists>r. test_channel nt self entry ip info channel w = (Inr r, w1 @ [CallNow])
             \<and> tested_for entry ip info channel r
             \<and> success_rate r = 0 \<and> error_message r = Some ''Connection failed''
             \<and> avg_latency_ms r = 0 \<and> jitter_ms r = 0 \<and> throughput_mbps r = 0))
       \<or> (\<exists>m j thr r. fst (measure_latency nt self w url 5) = Inr (Some (m, j))
             \<and> fst (measure_throughput nt self w1 url 5) = Inr thr
             \<and> test_channel nt self entry ip info channel w =
                 (Inr r, w1 @ [CallGet url (user_agent self) 10, CallNow])
             \<and> tested_for entry ip info channel r
             \<and> success_rate r = 100 \<and> error_message r = None
             \<and> avg_latency_ms r = py_round2 m \<and> jitter_ms r = py_round2 j
             \<and> throughput_mbps r = (case thr of None \<Rightarrow> 0 | Some t \<Rightarrow> if t \<noteq> 0 then py_round2 t else 0))"
proof -
  obtain lat where ml: "measure_latency nt self w url 5 = (Inr lat, w1)"
    using measure_latency_no_raise [of nt self w url 5] unfolding w1_def by blast
  show ?thesis
  proof (cases lat)
    case None
    then show ?thesis
      using ml
      by (simp add: test_channel_def url_def [symmetric] Let_def tested_for_def item_id_def
          item_name_def indicator_ok_def)
  next
    case (Some mj)
    obtain m j where mj: "mj = (m, j)" by (cases mj)
    obtain thr where mt: "measure_throughput nt self w1 url 5 =
        (Inr thr, w1 @ [CallGet url (user_agent self) 10])"
      using measure_throughput_5 by blast
    show ?thesis
      using ml Some mj mt
      by (simp add: test_channel_def url_def [symmetric] Let_def tested_for_def item_id_def
          item_name_def indicator_ok_def)
  qed
qed

lemma resolve_dns_eq: "\<exists>res. resolve_dns nt w d = (Inr res, w @ [CallGetaddrinfo d])"
  by (simp add: resolve_dns_def Let_def split: sum.splits)

lemma get_asn_info_eq:
  "\<exists>info. get_asn_info nt w ip = (Inr info, w @ [CallIpapi (''https://ipapi.co/'' @ ip @ ''/json/'')])"
  by (simp add: get_asn_info_def Let_def split: sum.splits option.splits)

lemma unresolved_loop_eq:
  "\<exists>rs. unresolved_loop nt entry channels w results =
          (results @ rs, w @ replicate (length channels) CallNow)
      \<and> list_all2 (unresolved_for entry) channels rs"
proof (induction channels arbitrary: w results)
  case Nil
  then show ?case by simp
next
  case (Cons c channels)
  let ?r = "\<lparr>dns_entry = entry,
               channel_id = py_str (dict_get c ''stream_id'' (PStr ''unknown'')),
               channel_name = dict_get c ''name'' (PStr ''Unknown''),
               timestamp = now_isoformat nt (length w),
               avg_latency_ms = 0, jitter_ms = 0, throughput_mbps = 0,
               ip_address = ''N/A'', asn = None, geolocation = None, hosting_provider = None,
               success_rate = 0, error_message = Some ''DNS resolution failed''\<rparr>"
  obtain rs where rs: "unresolved_loop nt entry channels (w @ [CallNow]) (results @ [?r]) =
          ((results @ [?r]) @ rs, (w @ [CallNow]) @ replicate (length channels) CallNow)"
    and all: "list_all2 (unresolved_for entry) channels rs"
    using Cons.IH by blast
  have u: "unresolved_for entry c ?r"
    by (simp add: unresolved_for_def dns_failure_marked_def item_name_def)
  have "unresolved_loop nt entry (c # channels) w results =
      (results @ (?r # rs), w @ replicate (length (c # channels)) CallNow)"
    using rs by (simp add: Let_def replicate_app_Cons_same)
  then show ?case
    using u all by blast
qed

lemma channels_loop_eq:
  "\<exists>rs w'. channels_loop nt self entry ip info channels w results = (Inr (results @ rs), w')
      \<and> list_all2 (tested_for entry ip info) channels rs"
proof (induction channels arbitrary: w results)
  case Nil
  then show ?case by simp
next
  case (Cons c channels)
  obtain r w1 where tc: "test_channel nt self entry ip info c w = (Inr r, w1)"
    and tf: "tested_for entry ip info c r"
    using test_channel_cases [where nt = nt and self = self and entry = entry and ip = ip
        and info = info and channel = c and w = w] by blast
  obtain rs w' where rs: "channels_loop nt self entry ip info channels w1 (results @ [r]) =
      (Inr ((results @ [r]) @ rs), w')"
    and all: "list_all2 (tested_for entry ip info) channels rs"
    using Cons.IH by blast
  have "channels_loop nt self entry ip info (c # channels) w results = (Inr (results @ (r # rs)), w')"
    using tc rs by simp
  then show ?case
    using tf all by blast
qed

lemma unresolved_result_for: "unresolved_for entry c r \<Longrightarrow> result_for entry c r"
  by (auto simp: unresolved_for_def result_for_def dns_failure_marked_def indicator_ok_def
      has_stream_id_def item_id_def dict_get_def)

lemma tested_result_for: "tested_for entry ip info c r \<Longrightarrow> result_for entry c r"
  by (simp add: tested_for_def result_for_def)

lemma test_endpoint_unresolved:
  assumes "fst (resolve_dns nt w (domain_of entry)) = Inr None
         \<or> fst (resolve_dns nt w (domain_of entry)) = Inr (Some [])"
  shows "\<exists>rs. test_endpoint nt self w entry channels =
          (Inr rs, w @ [CallGetaddrinfo (domain_of entry)] @ replicate (length channels) CallNow)
      \<and> list_all2 (unresolved_for entry) channels rs"
proof -
  obtain res where rd: "resolve_dns nt w (domain_of entry) = (Inr res, w @ [CallGetaddrinfo (domain_of entry)])"
    using resolve_dns_eq by blast
  obtain rs where rs: "unresolved_loop nt entry channels (w @ [CallGetaddrinfo (domain_of entry)]) [] =
          ([] @ rs, (w @ [CallGetaddrinfo (domain_of entry)]) @ replicate (length channels) CallNow)"
    and all: "list_all2 (unresolved_for entry) channels rs"
    using unresolved_loop_eq by blast
  have "res = None \<or> res = Some []"
    using assms rd by simp
  then have "test_endpoint nt self w entry channels =
          (Inr rs, w @ [CallGetaddrinfo (domain_of entry)] @ replicate (length channels) CallNow)"
    unfolding test_endpoint_def Let_def rd using rs by auto
  then show ?thesis
    using all by blast
qed

lemma test_endpoint_eq:
  "\<exists>rs w'. test_endpoint nt self w entry channels = (Inr rs, w')
      \<and> list_all2 (result_for entry) channels rs"
proof -
  obtain res w1 where rd: "resolve_dns nt w (domain_of entry) = (Inr res, w1)"
    using resolve_dns_eq by blast
  show ?thesis
  proof (cases "res = None \<or> res = Some []")
    case True
    then have "fst (resolve_dns nt w (domain_of entry)) = Inr None
         \<or> fst (resolve_dns nt w (domain_of entry)) = Inr (Some [])"
      using rd by auto
    from test_endpoint_unresolved [OF this]
    obtain rs w' where te: "test_endpoint nt self w entry channels = (Inr rs, w')"
      and all: "list_all2 (unresolved_for entry) channels rs"
      by blast
    have "list_all2 (result_for entry) channels rs"
      using all by (rule list_all2_mono) (rule unresolved_result_for)
    then show ?thesis
      using te by blast
  next
    case False
    then obtain ip where ip: "res = Some ip" "ip \<noteq> []"
      by (cases res) auto
    obtain info w2 where gi: "get_asn_info nt w1 ip = (Inr info, w2)"
      using get_asn_info_eq by blast
    obtain rs w' where rs: "channels_loop nt self entry ip info channels w2 [] = (Inr ([] @ rs), w')"
      and all: "list_all2 (tested_for entry ip info) channels rs"
      using channels_loop_eq by blast
    have "test_endpoint nt self w entry channels = (Inr rs, w')"
      using rd ip gi rs by (simp add: test_endpoint_def Let_def)
    moreover have "list_all2 (result_for entry) channels rs"
      using all by (rule list_all2_mono) (rule tested_result_for)
    ultimately show ?thesis
      by blast
  qed
qed

lemma run_loop_eq:
  "\<exists>rs w'. run_loop nt self E I w all_results = (Inr (all_results @ rs), w')
      \<and> list_all2 (\<lambda>(e, c) r. result_for e c r) (List.product E I) rs"
proof (induction E arbitrary: w all_results)
  case Nil
  then show ?case by simp
next
  case (Cons e E)
  obtain rs1 w1 where te: "test_endpoint nt self w e I = (Inr rs1, w1)"
    and a1: "list_all2 (result_for e) I rs1"
    using test_endpoint_eq by blast
  obtain rs w' where rl: "run_loop nt self E I w1 (all_results @ rs1) = (Inr ((all_results @ rs1) @ rs), w')"
    and a2: "list_all2 (\<lambda>(e, c) r. result_for e c r) (List.product E I) rs"
    using Cons.IH by blast
  have "list_all2 (\<lambda>(e, c) r. result_for e c r) (map (Pair e) I) rs1"
    using a1 by (simp add: list_all2_map1)
  then have "list_all2 (\<lambda>(e, c) r. result_for e c r) (List.product (e # E) I) (rs1 @ rs)"
    using a2 by (simp add: list_all2_appendI)
  moreover have "run_loop nt self (e # E) I w all_results = (Inr (all_results @ (rs1 @ rs)), w')"
    using te rl by simp
  ultimately show ?case
    by blast
qed

lemmas run_eval_defs =
  run_tests_def test_endpoint_def domain_of_def split_first_def resolve_dns_def
  resolve_dns_try_def Let_def get_asn_info_def get_asn_info_try_def dict_get_def
  identify_hosting_provider_def any_in_def lower_def test_channel_def stream_url_def
  measure_latency_def latency_summary_def statistics_mean_def statistics_stdev_def
  measure_throughput_def throughput_result_def measure_throughput_try_def
  measure_throughput_except_def py_round2_def round_half_even_def eval_nat_numeral

lemma example_run:
  "run_tests net_mixed example_tester [] [''http://down.example'', ''http://up.example'']
      example_channels =
    (Inr example_run_results,
     [CallGetaddrinfo ''down.example'', CallNow, CallNow,
      CallGetaddrinfo ''up.example'', CallIpapi ''https://ipapi.co/203.0.113.7/json/'',
      CallHead ''http://up.example/live/user/pw/101.ts'' ''TiviMate/4.4.0 (Android 11)'',
      CallHead ''http://up.example/live/user/pw/101.ts'' ''TiviMate/4.4.0 (Android 11)'',
      CallHead ''http://up.example/live/user/pw/101.ts'' ''TiviMate/4.4.0 (Android 11)'',
      CallHead ''http://up.example/live/user/pw/101.ts'' ''TiviMate/4.4.0 (Android 11)'',
      CallHead ''http://up.example/live/user/pw/101.ts'' ''TiviMate/4.4.0 (Android 11)'',
      CallGet ''http://up.example/live/user/pw/101.ts'' ''TiviMate/4.4.0 (Android 11)'' 10,
      CallNow,
      CallHead ''http://up.example/live/user/pw/102.ts'' ''TiviMate/4.4.0 (Android 11)'',
      CallHead ''http://up.example/live/user/pw/102.ts'' ''TiviMate/4.4.0 (Android 11)'',
      CallHead ''http://up.example/live/user/pw/102.ts'' ''TiviMate/4.4.0 (Android 11)'',
      CallHead ''http://up.example/live/user/pw/102.ts'' ''TiviMate/4.4.0 (Android 11)'',
      CallHead ''http://up.example/live/user/pw/102.ts'' ''TiviMate/4.4.0 (Android 11)'',
      CallNow])"
  by (simp add: run_eval_defs net_mixed_def example_channels_def example_tester_def
      example_run_results_def)

lemma list_all2_map_eq:
  "list_all2 R xs ys \<Longrightarrow> (\<And>x y. x \<in> set xs \<Longrightarrow> R x y \<Longrightarrow> f y = g x) \<Longrightarrow> map f ys = map g xs"
  by (induction rule: list_all2_induct) auto

lemma product_map_snd:
  "map (\<lambda>(e, c). (e, f c)) (List.product E I) = List.product E (map f I)"
  by (induction E) (simp_all add: comp_def)

lemma run_tests_eq:
  "\<exists>rs w'. run_tests nt self w E I = (Inr rs, w')
      \<and> list_all2 (\<lambda>(e, c) r. result_for e c r) (List.product E I) rs"
  using run_loop_eq [of nt self E I w "[]"] by (simp add: run_tests_def)

lemma result_for_indicator:
  "list_all2 (\<lambda>(e, c) r. result_for e c r) ps rs \<Longrightarrow> r \<in> set rs \<Longrightarrow> indicator_ok r"
  by (induction rule: list_all2_induct) (auto simp: result_for_def)

lemma result_for_indicator_endpoint:
  "list_all2 (result_for e) cs rs \<Longrightarrow> r \<in> set rs \<Longrightarrow> indicator_ok r"
  by (induction rule: list_all2_induct) (auto simp: result_for_def)

lemma distinct_map_comp: "distinct (map (g \<circ> f) xs) \<Longrightarrow> distinct (map f xs)"
  by (auto simp: distinct_map inj_on_def)

text \<open>
  Claim C4. In the loop over the channels of a resolved endpoint: when the latency probe
  gives no data, the record for that channel has success indicator 0, the error message
  "Connection failed" and zero metrics, the only calls made are the five HEAD requests and
  the reading of the clock (no download is attempted), and the loop goes on with the next
  channel. When the probe gives a latency and the throughput measurement gives no data,
  the record has success indicator 100, no error message and throughput 0. In every case
  the indicator is 0 exactly when the probe gave no data.
\<close>

theorem test_channel_latency_before_throughput:
  assumes "url = stream_url self entry channel"
    and "w1 = w @ replicate 5 (CallHead url (user_agent self))"
  shows "(fst (measure_latency nt self w url 5) = Inr None \<longrightarrow>
           (\<exists>r. test_channel nt self entry ip info channel w = (Inr r, w1 @ [CallNow])
              \<and> success_rate r = 0 \<and> error_message r = Some ''Connection failed''
              \<and> avg_latency_ms r = 0 \<and> jitter_ms r = 0 \<and> throughput_mbps r = 0
              \<and> \<not> list_ex is_get (drop (length w) (w1 @ [CallNow]))
              \<and> channels_loop nt self entry ip info (channel # rest) w results =
                  channels_loop nt self entry ip info rest (w1 @ [CallNow]) (results @ [r])))
       \<and> (fst (measure_latency nt self w url 5) = Inr (Some (m, j))
            \<and> fst (measure_throughput nt self w1 url 5) = Inr None \<longrightarrow>
           (\<exists>r. test_channel nt self entry ip info channel w =
                  (Inr r, w1 @ [CallGet url (user_agent self) 10, CallNow])
              \<and> success_rate r = 100 \<and> error_message r = None \<and> throughput_mbps r = 0
              \<and> avg_latency_ms r = py_round2 m \<and> jitter_ms r = py_round2 j))
       \<and> (\<exists>r w'. test_channel nt self entry ip info channel w = (Inr r, w')
              \<and> success_rate r = (if fst (measure_latency nt self w url 5) = Inr None then 0 else 100))"
proof -
  note cases = test_channel_cases [where nt = nt and self = self and entry = entry and ip = ip
      and info = info and channel = channel and w = w]
  have ng: "\<not> list_ex is_get (drop (length w) (w1 @ [CallNow]))"
    by (simp add: assms(2) list_ex_iff)
  have a: "\<exists>r. test_channel nt self entry ip info channel w = (Inr r, w1 @ [CallNow])
              \<and> success_rate r = 0 \<and> error_message r = Some ''Connection failed''
              \<and> avg_latency_ms r = 0 \<and> jitter_ms r = 0 \<and> throughput_mbps r = 0
              \<and> \<not> list_ex is_get (drop (length w) (w1 @ [CallNow]))
              \<and> channels_loop nt self entry ip info (channel # rest) w results =
                  channels_loop nt self entry ip info rest (w1 @ [CallNow]) (results @ [r])"
    if lat: "fst (measure_latency nt self w url 5) = Inr None"
  proof -
    obtain r where r: "test_channel nt self entry ip info channel w = (Inr r, w1 @ [CallNow])"
      "success_rate r = 0" "error_message r = Some ''Connection failed''"
      "avg_latency_ms r = 0" "jitter_ms r = 0" "throughput_mbps r = 0"
      using cases lat unfolding assms by auto
    have "channels_loop nt self entry ip info (channel # rest) w results =
        channels_loop nt self entry ip info rest (w1 @ [CallNow]) (results @ [r])"
      using r(1) by simp
    then show ?thesis
      using r ng by blast
  qed
  have b: "\<exists>r. test_channel nt self entry ip info channel w =
                  (Inr r, w1 @ [CallGet url (user_agent self) 10, CallNow])
              \<and> success_rate r = 100 \<and> error_message r = None \<and> throughput_mbps r = 0
              \<and> avg_latency_ms r = py_round2 m \<and> jitter_ms r = py_round2 j"
    if "fst (measure_latency nt self w url 5) = Inr (Some (m, j))
        \<and> fst (measure_throughput nt self w1 url 5) = Inr None"
    using cases that unfolding assms by auto
  have c: "\<exists>r w'. test_channel nt self entry ip info channel w = (Inr r, w')
      \<and> success_rate r = (if fst (measure_latency nt self w url 5) = Inr None then 0 else 100)"
    using cases unfolding assms by auto
  show ?thesis
    using a b c by blast
qed

theorem test_channel_latency_before_throughput_witness:
  "fst (measure_latency net_mixed example_tester [] ''http://up.example/live/user/pw/102.ts'' 5)
     = Inr None
   \<and> fst (test_channel net_mixed example_tester ''http://up.example'' ''203.0.113.7''
         (None, None, None) (example_channels ! 1) []) =
       Inr \<lparr>dns_entry = ''http://up.example'', channel_id = ''102'', channel_name = PStr ''Sport'',
            timestamp = ''2024-01-01T00:00:00'', avg_latency_ms = 0, jitter_ms = 0,
            throughput_mbps = 0, ip_address = ''203.0.113.7'', asn = None, geolocation = None,
            hosting_provider = None, success_rate = 0,
            error_message = Some ''Connection failed''\<rparr>
   \<and> snd (test_channel net_mixed example_tester ''http://up.example'' ''203.0.113.7''
         (None, None, None) (example_channels ! 1) []) =
       replicate 5 (CallHead ''http://up.example/live/user/pw/102.ts'' ''TiviMate/4.4.0 (Android 11)'')
         @ [CallNow]
   \<and> fst (measure_latency net_mixed example_tester [] ''http://up.example/live/user/pw/101.ts'' 5)
     = Inr (Some (20, 0))
   \<and> fst (measure_throughput net_mixed example_tester
         (replicate 5 (CallHead ''http://up.example/live/user/pw/101.ts'' ''TiviMate/4.4.0 (Android 11)''))
         ''http://up.example/live/user/pw/101.ts'' 5) = Inr None
   \<and> fst (test_channel net_mixed example_tester ''http://up.example'' ''203.0.113.7''
         (None, None, None) (example_channels ! 0) []) =
       Inr \<lparr>dns_entry = ''http://up.example'', channel_id = ''101'', channel_name = PStr ''News'',
            timestamp = ''2024-01-01T00:00:00'', avg_latency_ms = 20, jitter_ms = 0,
            throughput_mbps = 0, ip_address = ''203.0.113.7'', asn = None, geolocation = None,
            hosting_provider = None, success_rate = 100, error_message = None\<rparr>"
proof -
  let ?ua = "''TiviMate/4.4.0 (Android 11)''"
  let ?u1 = "''http://up.example/live/user/pw/101.ts''"
  let ?u2 = "''http://up.example/live/user/pw/102.ts''"
  have u: "?u2 = stream_url example_tester ''http://up.example'' (example_channels ! 1)"
    "?u1 = stream_url example_tester ''http://up.example'' (example_channels ! 0)"
    by (simp_all add: stream_url_def example_tester_def example_channels_def dict_get_def)
  have ua: "user_agent example_tester = ?ua"
    by (simp add: example_tester_def)
  have w1: "replicate 5 (CallHead ?u2 ?ua) = [] @ replicate 5 (CallHead ?u2 (user_agent example_tester))"
    "replicate 5 (CallHead ?u1 ?ua) = [] @ replicate 5 (CallHead ?u1 (user_agent example_tester))"
    by (simp_all add: ua)
  have l2: "fst (measure_latency net_mixed example_tester [] ?u2 5) = Inr None"
    and l1: "fst (measure_latency net_mixed example_tester [] ?u1 5) = Inr (Some (20, 0))"
    and t1: "fst (measure_throughput net_mixed example_tester (replicate 5 (CallHead ?u1 ?ua)) ?u1 5)
        = Inr None"
    by (simp_all add: run_eval_defs net_mixed_def example_tester_def)
  have e2: "test_channel net_mixed example_tester ''http://up.example'' ''203.0.113.7''
         (None, None, None) (example_channels ! 1) [] =
       (Inr \<lparr>dns_entry = ''http://up.example'', channel_id = ''102'', channel_name = PStr ''Sport'',
            timestamp = ''2024-01-01T00:00:00'', avg_latency_ms = 0, jitter_ms = 0,
            throughput_mbps = 0, ip_address = ''203.0.113.7'', asn = None, geolocation = None,
            hosting_provider = None, success_rate = 0,
            error_message = Some ''Connection failed''\<rparr>,
        replicate 5 (CallHead ?u2 ?ua) @ [CallNow])"
    and e1: "fst (test_channel net_mixed example_tester ''http://up.example'' ''203.0.113.7''
         (None, None, None) (example_channels ! 0) []) =
       Inr \<lparr>dns_entry = ''http://up.example'', channel_id = ''101'', channel_name = PStr ''News'',
            timestamp = ''2024-01-01T00:00:00'', avg_latency_ms = 20, jitter_ms = 0,
            throughput_mbps = 0, ip_address = ''203.0.113.7'', asn = None, geolocation = None,
            hosting_provider = None, success_rate = 100, error_message = None\<rparr>"
    by (simp_all add: run_eval_defs net_mixed_def example_tester_def example_channels_def)
  have "\<exists>r. test_channel net_mixed example_tester ''http://up.example'' ''203.0.113.7''
         (None, None, None) (example_channels ! 1) [] = (Inr r, replicate 5 (CallHead ?u2 ?ua) @ [CallNow])
       \<and> success_rate r = 0 \<and> error_message r = Some ''Connection failed''"
    using test_channel_latency_before_throughput [OF u(1) w1(1), where nt = net_mixed] l2 by blast
  moreover have "\<exists>r. test_channel net_mixed example_tester ''http://up.example'' ''203.0.113.7''
         (None, None, None) (example_channels ! 0) [] =
            (Inr r, replicate 5 (CallHead ?u1 ?ua) @ [CallGet ?u1 (user_agent example_tester) 10, CallNow])
       \<and> success_rate r = 100 \<and> error_message r = None \<and> throughput_mbps r = 0"
    using test_channel_latency_before_throughput [OF u(2) w1(2), where nt = net_mixed and m = 20 and j = 0] l1 t1 by blast
  ultimately show ?thesis
    using l1 l2 t1 e1 e2 by simp
qed

text \<open>
  Claim C9. Every record that a run (or the test of one endpoint) produces has a success
  indicator that is exactly 0 or exactly 100; the indicator is 100 if and only if the
  record has no error message, and 0 if and only if it has one.
\<close>

theorem result_indicator_binary:
  assumes "fst (run_tests nt self w E I) = Inr rs \<or> fst (test_endpoint nt self w e I) = Inr rs"
  shows "\<forall>r \<in> set rs. (success_rate r = 0 \<or> success_rate r = 100)
           \<and> (success_rate r = 100) = (error_message r = None)
           \<and> (success_rate r = 0) = (error_message r \<noteq> None)"
proof -
  have "indicator_ok r" if "r \<in> set rs" for r
    using assms
  proof
    assume "fst (run_tests nt self w E I) = Inr rs"
    then have "list_all2 (\<lambda>(e, c) r. result_for e c r) (List.product E I) rs"
      using run_tests_eq [of nt self w E I] by auto
    then show ?thesis
      using that by (rule result_for_indicator)
  next
    assume "fst (test_endpoint nt self w e I) = Inr rs"
    then have "list_all2 (result_for e) I rs"
      using test_endpoint_eq [of nt self w e I] by auto
    then show ?thesis
      using that by (rule result_for_indicator_endpoint)
  qed
  then show ?thesis
    by (auto simp: indicator_ok_def)
qed

theorem result_indicator_binary_witness:
  "fst (run_tests net_mixed example_tester [] [''http://down.example'', ''http://up.example'']
      example_channels) = Inr example_run_results
   \<and> map success_rate example_run_results = [0, 0, 100, 0]
   \<and> map error_message example_run_results =
       [Some ''DNS resolution failed'', Some ''DNS resolution failed'', None,
        Some ''Connection failed'']
   \<and> list_all (\<lambda>r. (success_rate r = 0 \<or> success_rate r = 100)
           \<and> (success_rate r = 100) = (error_message r = None)
           \<and> (success_rate r = 0) = (error_message r \<noteq> None)) example_run_results
   \<and> fst (test_endpoint net_mixed example_tester [] ''http://down.example'' example_channels)
       = Inr (take 2 example_run_results)
   \<and> list_all (\<lambda>r. success_rate r = 0 \<and> error_message r \<noteq> None) (take 2 example_run_results)"
proof -
  have ev: "fst (run_tests net_mixed example_tester [] [''http://down.example'', ''http://up.example'']
      example_channels) = Inr example_run_results"
    by (simp add: example_run)
  have "list_all (\<lambda>r. (success_rate r = 0 \<or> success_rate r = 100)
           \<and> (success_rate r = 100) = (error_message r = None)
           \<and> (success_rate r = 0) = (error_message r \<noteq> None)) example_run_results"
    using result_indicator_binary [OF disjI1 [OF ev]] unfolding list_all_iff by blast
  moreover have te: "fst (test_endpoint net_mixed example_tester [] ''http://down.example'' example_channels)
       = Inr (take 2 example_run_results)"
    by (simp add: run_eval_defs net_mixed_def example_channels_def example_tester_def
        example_run_results_def)
  moreover have "list_all (\<lambda>r. success_rate r = 0 \<and> error_message r \<noteq> None) (take 2 example_run_results)"
    using result_indicator_binary [OF disjI2 [OF te]]
    by (simp add: list_all_iff example_run_results_def)
  ultimately show ?thesis
    using ev by (simp add: example_run_results_def)
qed

text \<open>
  Claim C1, as stated, fails: nothing in the run removes a repeated endpoint or a repeated
  channel, so a list that names the endpoint \<open>http://a.example\<close> twice gives two records
  with the same (endpoint, item) pairing.
\<close>

theorem run_tests_repeated_endpoint:
  "[''http://a.example'', ''http://a.example''] \<noteq> [] \<and> [example_channels ! 0] \<noteq> []
   \<and> fst (run_tests net_down example_tester [] [''http://a.example'', ''http://a.example'']
          [example_channels ! 0]) = Inr [example_unresolved, example_unresolved]
   \<and> \<not> distinct (map pairing [example_unresolved, example_unresolved])"
  by (simp add: run_eval_defs net_down_def example_channels_def example_tester_def
      example_unresolved_def)

text \<open>
  Claim C1, amended. For all endpoint lists \<open>E\<close> and item lists \<open>I\<close> a run returns exactly
  \<open>|E| * |I|\<close> records, one for each position pair, endpoint by endpoint and item by item
  in the order of the lists: the record carries that endpoint and that item's name, and
  that item's identifier when the items have one. The (endpoint, item) pairings of the
  records are pairwise distinct whenever no endpoint occurs twice in \<open>E\<close> and no item
  occurs twice in \<open>I\<close> (the names differ, or all items have an identifier and the pairs
  of identifier and name differ). An endpoint that does not resolve still gets one record
  per item, marked as a resolution failure, and no request is made for it.
\<close>

theorem run_tests_one_record_per_position:
  "\<exists>rs w'. run_tests nt self w E I = (Inr rs, w')
      \<and> length rs = length E * length I
      \<and> map (\<lambda>r. (dns_entry r, channel_name r)) rs = List.product E (map item_name I)
      \<and> (list_all has_stream_id I \<longrightarrow> map pairing rs = List.product E (map item_key I))
      \<and> (distinct E \<and> distinct (map item_name I) \<longrightarrow> distinct (map pairing rs))
      \<and> (list_all has_stream_id I \<and> distinct E \<and> distinct (map item_key I) \<longrightarrow>
           distinct (map pairing rs))
      \<and> (\<forall>e. fst (resolve_dns nt w (domain_of e)) = Inr None \<longrightarrow>
           (\<exists>rs1. test_endpoint nt self w e I =
                (Inr rs1, w @ [CallGetaddrinfo (domain_of e)] @ replicate (length I) CallNow)
              \<and> length rs1 = length I \<and> list_all (dns_failure_marked e) rs1))"
proof -
  obtain rs w' where run: "run_tests nt self w E I = (Inr rs, w')"
    and all: "list_all2 (\<lambda>(e, c) r. result_for e c r) (List.product E I) rs"
    using run_tests_eq by blast
  have len: "length rs = length E * length I"
    using list_all2_lengthD [OF all] by simp
  have "map (\<lambda>r. (dns_entry r, channel_name r)) rs = map (\<lambda>(e, c). (e, item_name c)) (List.product E I)"
    using all by (rule list_all2_map_eq) (auto simp: result_for_def)
  then have nm: "map (\<lambda>r. (dns_entry r, channel_name r)) rs = List.product E (map item_name I)"
    by (simp add: product_map_snd)
  have dn: "distinct (map pairing rs)" if "distinct E \<and> distinct (map item_name I)"
  proof -
    have "distinct (map (\<lambda>r. (dns_entry r, channel_name r)) rs)"
      using that nm by (simp add: distinct_product)
    moreover have "(\<lambda>r. (dns_entry r, channel_name r)) = (\<lambda>p. (fst p, snd (snd p))) \<circ> pairing"
      by (auto simp: pairing_def)
    ultimately have "distinct (map ((\<lambda>p. (fst p, snd (snd p))) \<circ> pairing) rs)"
      by simp
    then show ?thesis
      by (rule distinct_map_comp)
  qed
  have pr: "map pairing rs = List.product E (map item_key I)" if ids: "list_all has_stream_id I"
  proof -
    have "map pairing rs = map (\<lambda>(e, c). (e, item_key c)) (List.product E I)"
      using all
    proof (rule list_all2_map_eq)
      fix x r
      assume "x \<in> set (List.product E I)" and "(case x of (e, c) \<Rightarrow> result_for e c) r"
      then show "pairing r = (case x of (e, c) \<Rightarrow> (e, item_key c))"
        using ids by (auto simp: result_for_def pairing_def item_key_def list_all_iff)
    qed
    then show ?thesis
      by (simp add: product_map_snd)
  qed
  have ds: "distinct (map pairing rs)"
    if "list_all has_stream_id I \<and> distinct E \<and> distinct (map item_key I)"
    using that pr by (simp add: distinct_product)
  have un: "\<exists>rs1. test_endpoint nt self w e I =
                (Inr rs1, w @ [CallGetaddrinfo (domain_of e)] @ replicate (length I) CallNow)
              \<and> length rs1 = length I \<and> list_all (dns_failure_marked e) rs1"
    if unres: "fst (resolve_dns nt w (domain_of e)) = Inr None" for e
  proof -
    obtain rs1 where te: "test_endpoint nt self w e I =
          (Inr rs1, w @ [CallGetaddrinfo (domain_of e)] @ replicate (length I) CallNow)"
      and a1: "list_all2 (unresolved_for e) I rs1"
      using test_endpoint_unresolved [OF disjI1 [OF unres]] by blast
    have "list_all (dns_failure_marked e) rs1"
      using a1 by (induction rule: list_all2_induct) (simp_all add: unresolved_for_def)
    then show ?thesis
      using te list_all2_lengthD [OF a1] by auto
  qed
  show ?thesis
    using run len nm pr dn ds un by blast
qed

theorem run_tests_one_record_per_position_witness:
  "run_tests net_mixed example_tester [] [''http://down.example'', ''http://up.example'']
      example_channels = (Inr example_run_results, snd (run_tests net_mixed example_tester []
        [''http://down.example'', ''http://up.example''] example_channels))
   \<and> length example_run_results = 2 * 2
   \<and> list_all has_stream_id example_channels
   \<and> distinct [''http://down.example'', ''http://up.example'']
   \<and> distinct (map item_key example_channels)
   \<and> distinct (map item_name example_channels)
   \<and> map pairing example_run_results =
       [(''http://down.example'', ''101'', PStr ''News''), (''http://down.example'', ''102'', PStr ''Sport''),
        (''http://up.example'', ''101'', PStr ''News''), (''http://up.example'', ''102'', PStr ''Sport'')]
   \<and> distinct (map pairing example_run_results)
   \<and> fst (resolve_dns net_mixed [] (domain_of ''http://down.example'')) = Inr None
   \<and> test_endpoint net_mixed example_tester [] ''http://down.example'' example_channels =
       (Inr (take 2 example_run_results), [CallGetaddrinfo ''down.example'', CallNow, CallNow])
   \<and> list_all (dns_failure_marked ''http://down.example'') (take 2 example_run_results)"
proof -
  let ?E = "[''http://down.example'', ''http://up.example'']"
  have ids: "list_all has_stream_id example_channels"
    and dE: "distinct ?E"
    and dI: "distinct (map item_key example_channels)"
    and dN: "distinct (map item_name example_channels)"
    by (simp_all add: has_stream_id_def example_channels_def item_key_def item_id_def
        item_name_def dict_get_def)
  have rd: "fst (resolve_dns net_mixed [] (domain_of ''http://down.example'')) = Inr None"
    by (simp add: run_eval_defs net_mixed_def)
  have dom: "domain_of ''http://down.example'' = ''down.example''"
    by (simp add: domain_of_def split_first_def)
  obtain rs w' where run: "run_tests net_mixed example_tester [] ?E example_channels = (Inr rs, w')"
    and len: "length rs = length ?E * length example_channels"
    and pr: "list_all has_stream_id example_channels \<longrightarrow>
        map pairing rs = List.product ?E (map item_key example_channels)"
    and dn: "distinct ?E \<and> distinct (map item_name example_channels) \<longrightarrow> distinct (map pairing rs)"
    and ds: "list_all has_stream_id example_channels \<and> distinct ?E
        \<and> distinct (map item_key example_channels) \<longrightarrow> distinct (map pairing rs)"
    and un: "\<forall>e. fst (resolve_dns net_mixed [] (domain_of e)) = Inr None \<longrightarrow>
           (\<exists>rs1. test_endpoint net_mixed example_tester [] e example_channels =
                (Inr rs1, [] @ [CallGetaddrinfo (domain_of e)] @ replicate (length example_channels) CallNow)
              \<and> length rs1 = length example_channels \<and> list_all (dns_failure_marked e) rs1)"
    using run_tests_one_record_per_position [of net_mixed example_tester "[]" ?E example_channels]
    by blast
  have rs: "rs = example_run_results"
    using run by (simp add: example_run)
  have te: "test_endpoint net_mixed example_tester [] ''http://down.example'' example_channels =
       (Inr (take 2 example_run_results), [CallGetaddrinfo ''down.example'', CallNow, CallNow])"
    by (simp add: run_eval_defs net_mixed_def example_channels_def example_tester_def
        example_run_results_def)
  obtain rs1 where "test_endpoint net_mixed example_tester [] ''http://down.example'' example_channels =
       (Inr rs1, [] @ [CallGetaddrinfo (domain_of ''http://down.example'')]
          @ replicate (length example_channels) CallNow)"
    and "list_all (dns_failure_marked ''http://down.example'') rs1"
    using un rd by blast
  then have mk: "list_all (dns_failure_marked ''http://down.example'') (take 2 example_run_results)"
    using te by simp
  have p: "map pairing example_run_results = List.product ?E (map item_key example_channels)"
    using pr ids rs by simp
  have d: "distinct (map pairing example_run_results)"
    using ds ids dE dI rs by simp
  have d': "distinct (map pairing example_run_results)"
    using dn dE dN rs by simp
  have "List.product ?E (map item_key example_channels) =
       [(''http://down.example'', ''101'', PStr ''News''), (''http://down.example'', ''102'', PStr ''Sport''),
        (''http://up.example'', ''101'', PStr ''News''), (''http://up.example'', ''102'', PStr ''Sport'')]"
    by (simp add: example_channels_def item_key_def item_id_def item_name_def dict_get_def)
  then show ?thesis
    using run rs len ids dE dI dN p d d' rd te mk by (simp add: example_channels_def)
qed

subsection \<open>The user agent of the requests\<close>

lemma requests_carry_append [simp]:
  "requests_carry ua (w @ w') \<longleftrightarrow> requests_carry ua w \<and> requests_carry ua w'"
  by (simp add: requests_carry_def)

lemma requests_carry_simps [simp]:
  "requests_carry ua []"
  "requests_carry ua (c # w) \<longleftrightarrow>
     (sent_user_agent c = None \<or> sent_user_agent c = Some ua) \<and> requests_carry ua w"
  "requests_carry ua (replicate n c) \<longleftrightarrow>
     n = 0 \<or> sent_user_agent c = None \<or> sent_user_agent c = Some ua"
  by (auto simp: requests_carry_def list_all_iff)

lemma test_channel_log:
  assumes "requests_carry (user_agent self) w"
  shows "requests_carry (user_agent self) (snd (test_channel nt self entry ip info channel w))"
  using test_channel_cases [where nt = nt and self = self and entry = entry and ip = ip
      and info = info and channel = channel and w = w] assms
  by auto

lemma channels_loop_log:
  "requests_carry (user_agent self) w \<Longrightarrow>
   requests_carry (user_agent self) (snd (channels_loop nt self entry ip info channels w results))"
proof (induction channels arbitrary: w results)
  case Nil
  then show ?case by simp
next
  case (Cons c channels)
  obtain r w1 where tc: "test_channel nt self entry ip info c w = (Inr r, w1)"
    using test_channel_cases [where nt = nt and self = self and entry = entry and ip = ip
        and info = info and channel = c and w = w] by blast
  have "requests_carry (user_agent self) w1"
    using test_channel_log [OF Cons.prems, of nt entry ip info c] tc by simp
  then show ?case
    using Cons.IH tc by simp
qed

lemma test_endpoint_log:
  assumes "requests_carry (user_agent self) w"
  shows "requests_carry (user_agent self) (snd (test_endpoint nt self w entry channels))"
proof -
  obtain res where rd: "resolve_dns nt w (domain_of entry) = (Inr res, w @ [CallGetaddrinfo (domain_of entry)])"
    using resolve_dns_eq by blast
  show ?thesis
  proof (cases "res = None \<or> res = Some []")
    case True
    then have "fst (resolve_dns nt w (domain_of entry)) = Inr None
         \<or> fst (resolve_dns nt w (domain_of entry)) = Inr (Some [])"
      using rd by auto
    from test_endpoint_unresolved [OF this, of self channels]
    show ?thesis
      using assms by auto
  next
    case False
    then obtain ip where ip: "res = Some ip" "ip \<noteq> []"
      by (cases res) auto
    obtain info where gi: "get_asn_info nt (w @ [CallGetaddrinfo (domain_of entry)]) ip =
        (Inr info, (w @ [CallGetaddrinfo (domain_of entry)]) @ [CallIpapi (''https://ipapi.co/'' @ ip @ ''/json/'')])"
      using get_asn_info_eq by blast
    have "test_endpoint nt self w entry channels =
        channels_loop nt self entry ip info channels
          ((w @ [CallGetaddrinfo (domain_of entry)]) @ [CallIpapi (''https://ipapi.co/'' @ ip @ ''/json/'')]) []"
      using rd ip gi by (simp add: test_endpoint_def Let_def)
    moreover have "requests_carry (user_agent self)
        ((w @ [CallGetaddrinfo (domain_of entry)]) @ [CallIpapi (''https://ipapi.co/'' @ ip @ ''/json/'')])"
      using assms by simp
    ultimately show ?thesis
      using channels_loop_log by simp
  qed
qed

lemma run_loop_log:
  "requests_carry (user_agent self) w \<Longrightarrow>
   requests_carry (user_agent self) (snd (run_loop nt self E I w all_results))"
proof (induction E arbitrary: w all_results)
  case Nil
  then show ?case by simp
next
  case (Cons e E)
  obtain rs1 w1 where te: "test_endpoint nt self w e I = (Inr rs1, w1)"
    using test_endpoint_eq by blast
  have "requests_carry (user_agent self) w1"
    using test_endpoint_log [OF Cons.prems, of nt e I] te by simp
  then show ?case
    using Cons.IH te by simp
qed

lemma run_tests_log:
  "requests_carry (user_agent self) (snd (run_tests nt self [] E I))"
  using run_loop_log [of self "[]" nt E I "[]"] by (simp add: run_tests_def)

text \<open>
  Claim C10. Constructing the tester never fails. The user agent it holds is one of the
  two known strings for every argument: the lower-cased argument selects the entry when it
  is a known key (so the lookup is case-insensitive), and any other argument silently
  selects the TiviMate string. Every HEAD and GET request of a run with that tester sends
  this user agent.
\<close>

theorem CDNTester_init_user_agent:
  "\<exists>t. CDNTester_init usr pwd ua = Inr t
      \<and> username t = usr \<and> password t = pwd
      \<and> user_agent t \<in> {''TiviMate/4.4.0 (Android 11)'', ''VLC/3.0.18 LibVLC/3.0.18''}
      \<and> (lower ua \<notin> {''tivimate'', ''vlc''} \<longrightarrow> user_agent t = ''TiviMate/4.4.0 (Android 11)'')
      \<and> (lower ua = ''tivimate'' \<longrightarrow> user_agent t = ''TiviMate/4.4.0 (Android 11)'')
      \<and> (lower ua = ''vlc'' \<longrightarrow> user_agent t = ''VLC/3.0.18 LibVLC/3.0.18'')
      \<and> CDNTester_init usr pwd (lower ua) = Inr t
      \<and> requests_carry (user_agent t) (snd (run_tests nt t [] E I))"
  by (simp add: CDNTester_init_def dict_index_def dict_get_def USER_AGENTS_def lower_idem
      run_tests_log)

theorem CDNTester_init_user_agent_witness:
  "lower ''Kodi'' \<notin> {''tivimate'', ''vlc''}
   \<and> CDNTester_init ''u'' ''p'' ''Kodi'' =
     Inr \<lparr>username = ''u'', password = ''p'', user_agent = ''TiviMate/4.4.0 (Android 11)''\<rparr>
   \<and> requests_carry ''TiviMate/4.4.0 (Android 11)''
        (snd (run_tests net_mixed
           \<lparr>username = ''u'', password = ''p'', user_agent = ''TiviMate/4.4.0 (Android 11)''\<rparr> []
           [''http://down.example'', ''http://up.example''] example_channels))
   \<and> lower ''VLC'' = ''vlc''
   \<and> CDNTester_init ''u'' ''p'' ''VLC'' =
     Inr \<lparr>username = ''u'', password = ''p'', user_agent = ''VLC/3.0.18 LibVLC/3.0.18''\<rparr>
   \<and> lower ''TiviMate'' = ''tivimate''
   \<and> CDNTester_init ''u'' ''p'' ''TiviMate'' =
     Inr \<lparr>username = ''u'', password = ''p'', user_agent = ''TiviMate/4.4.0 (Android 11)''\<rparr>"
proof -
  let ?t = "\<lparr>username = ''u'', password = ''p'', user_agent = ''TiviMate/4.4.0 (Android 11)''\<rparr>"
  have h: "lower ''Kodi'' \<notin> {''tivimate'', ''vlc''}" "lower ''VLC'' = ''vlc''"
    "lower ''TiviMate'' = ''tivimate''"
    by (simp_all add: lower_def)
  obtain t where t: "CDNTester_init ''u'' ''p'' ''Kodi'' = Inr t"
    "username t = ''u''" "password t = ''p''"
    "lower ''Kodi'' \<notin> {''tivimate'', ''vlc''} \<longrightarrow> user_agent t = ''TiviMate/4.4.0 (Android 11)''"
    "requests_carry (user_agent t) (snd (run_tests net_mixed t []
        [''http://down.example'', ''http://up.example''] example_channels))"
    using CDNTester_init_user_agent [of "''u''" "''p''" "''Kodi''" net_mixed
        "[''http://down.example'', ''http://up.example'']" example_channels]
    by blast
  have "t = ?t"
    using t(2,3,4) h(1) by (cases t) simp
  then have k: "CDNTester_init ''u'' ''p'' ''Kodi'' = Inr ?t"
    "requests_carry ''TiviMate/4.4.0 (Android 11)'' (snd (run_tests net_mixed ?t []
        [''http://down.example'', ''http://up.example''] example_channels))"
    using t(1,5) by simp_all
  have v: "CDNTester_init ''u'' ''p'' ''VLC'' =
     Inr \<lparr>username = ''u'', password = ''p'', user_agent = ''VLC/3.0.18 LibVLC/3.0.18''\<rparr>"
    using h(2) CDNTester_init_user_agent [of "''u''" "''p''" "''VLC''" net_down "[]" "[]"]
    by (auto simp: CDNTester.equality)
  have m: "CDNTester_init ''u'' ''p'' ''TiviMate'' = Inr ?t"
    using h(3) CDNTester_init_user_agent [of "''u''" "''p''" "''TiviMate''" net_down "[]" "[]"]
    by (auto simp: CDNTester.equality)
  show ?thesis
    using h k v m by simp
qed

section \<open>Ranking: proofs\<close>

lemma set_first_seen [simp]: "set (first_seen xs) = set xs"
  by (induction xs rule: first_seen.induct) auto

lemma distinct_first_seen [simp]: "distinct (first_seen xs)"
  by (induction xs rule: first_seen.induct) auto
















end
